theory Spec2Isabelle
  imports Main "HOL-Library.Word" "HOL-Library.AList"
begin

section \<open>Values of the host language\<close>

text \<open>
  The Responses client (\<^verbatim>\<open>ResponsesService\<close>) works on untyped values that come out
  of \<^verbatim>\<open>JSON.parse\<close>. They are modelled by the datatype \<open>json\<close>; the value
  \<^verbatim>\<open>undefined\<close> is \<open>None\<close> of \<open>json option\<close>. Strings are lists of code
  units (\<open>char\<close> covers the code units below 256). Numbers are integers: the client only
  tests them against zero, passes them on or prints them, and the counters and limits it
  handles are whole numbers.
\<close>

datatype json =
    JNull
  | JBool bool
  | JNum int
  | JStr string
  | JArr "json list"
  | JObj "(string \<times> json) list"

text \<open>
  A thrown value: an \<^verbatim>\<open>Error\<close> object with its name and message, or anything else.
  For the errors that the engine raises itself (\<open>type_error\<close>, \<open>not_iterable\<close>,
  \<open>syntax_error\<close>) the name is the engine's; the message stands for the engine's text,
  which names the property read or quotes the input.
\<close>

datatype thrown =
    ErrorObj (err_name: string) (err_message: string)
  | NonError

definition type_error :: thrown where
  "type_error = ErrorObj ''TypeError'' ''Cannot read properties of null''"

definition not_iterable :: thrown where
  "not_iterable = ErrorObj ''TypeError'' ''value is not iterable''"

definition syntax_error :: thrown where
  "syntax_error = ErrorObj ''SyntaxError'' ''Unexpected token in JSON''"

text \<open>Truthiness: \<^verbatim>\<open>false\<close>, \<^verbatim>\<open>0\<close>, \<^verbatim>\<open>''\<close>, \<^verbatim>\<open>null\<close> and \<^verbatim>\<open>undefined\<close> are falsy.\<close>

fun truthy :: "json \<Rightarrow> bool" where
  "truthy JNull = False"
| "truthy (JBool b) = b"
| "truthy (JNum n) = (n \<noteq> 0)"
| "truthy (JStr s) = (s \<noteq> [])"
| "truthy (JArr xs) = True"
| "truthy (JObj kvs) = True"

text \<open>
  \<^verbatim>\<open>v.k\<close> on a value that is not \<^verbatim>\<open>null\<close>, for the keys the client reads
  (\<^verbatim>\<open>type\<close>, \<^verbatim>\<open>model\<close>, \<^verbatim>\<open>delta\<close>, \<^verbatim>\<open>usage\<close>, ...; none of them is a
  property of a prototype): an object gives its own property, every other value gives
  \<^verbatim>\<open>undefined\<close>. On \<^verbatim>\<open>null\<close> the access throws a TypeError; the callers of
  \<open>get_prop\<close> test for \<^verbatim>\<open>null\<close> first.
\<close>

fun get_prop :: "json \<Rightarrow> string \<Rightarrow> json option" where
  "get_prop (JObj kvs) k = map_of kvs k"
| "get_prop v k = None"

text \<open>\<^verbatim>\<open>v?.k\<close> on a possibly undefined value.\<close>

definition prop_chain :: "json option \<Rightarrow> string \<Rightarrow> json option" where
  "prop_chain v k =
     (case v of None \<Rightarrow> None | Some JNull \<Rightarrow> None | Some x \<Rightarrow> get_prop x k)"

subsection \<open>Printing\<close>

function show_nat :: "nat \<Rightarrow> string" where
  "show_nat n =
     (if n < 10 then [''0123456789'' ! n]
      else show_nat (n div 10) @ [''0123456789'' ! (n mod 10)])"
  by pat_completeness auto
termination
  by (relation "measure id") auto

declare show_nat.simps [simp del]

definition show_int :: "int \<Rightarrow> string" where
  "show_int i = (if i < 0 then CHR ''-'' # show_nat (nat (- i)) else show_nat (nat i))"

fun join_comma :: "string list \<Rightarrow> string" where
  "join_comma [] = []"
| "join_comma [s] = s"
| "join_comma (s # t # ss) = s @ '','' @ join_comma (t # ss)"

text \<open>
  The string a value turns into when it is appended to a string or handed to
  \<^verbatim>\<open>new Error\<close>: an array joins its elements with commas, \<^verbatim>\<open>null\<close> elements
  printing as the empty string. Integers print in decimal, which is what the engine does
  for magnitudes below 1e21.
\<close>

fun js_to_string :: "json \<Rightarrow> string" where
  "js_to_string JNull = ''null''"
| "js_to_string (JBool b) = (if b then ''true'' else ''false'')"
| "js_to_string (JNum n) = show_int n"
| "js_to_string (JStr s) = s"
| "js_to_string (JArr xs) =
     join_comma (map (\<lambda>x. if x = JNull then [] else js_to_string x) xs)"
| "js_to_string (JObj kvs) = ''[object Object]''"

subsection \<open>Strings\<close>

text \<open>The white space that \<^verbatim>\<open>String.prototype.trim\<close> removes, among the code units below 256.\<close>

definition is_space :: "char \<Rightarrow> bool" where
  "is_space c = (c \<in> {CHR 0x09, CHR 0x0A, CHR 0x0B, CHR 0x0C, CHR 0x0D, CHR 0x20, CHR 0xA0})"

definition js_trim :: "string \<Rightarrow> string" where
  "js_trim s = rev (dropWhile is_space (rev (dropWhile is_space s)))"

text \<open>\<^verbatim>\<open>s.includes(pat)\<close> and \<^verbatim>\<open>s.startsWith(pat)\<close>.\<close>

definition starts_with :: "string \<Rightarrow> string \<Rightarrow> bool" where
  "starts_with s pat = (take (length pat) s = pat)"

fun str_includes :: "string \<Rightarrow> string \<Rightarrow> bool" where
  "str_includes [] pat = (pat = [])"
| "str_includes (c # cs) pat = (starts_with (c # cs) pat \<or> str_includes cs pat)"

section \<open>Usage counters to timings\<close>

text \<open>
  \<^verbatim>\<open>convertUsageToTimings\<close>: each counter is \<^verbatim>\<open>usage.field || 0\<close>, the cached one
  through \<^verbatim>\<open>usage.input_tokens_details?.cached_tokens\<close>. The declared parameter type is
  an object; on \<^verbatim>\<open>null\<close> the first property access throws.
\<close>

record timings =
  prompt_n :: json
  predicted_n :: json
  cache_n :: json

definition or_zero :: "json option \<Rightarrow> json" where
  "or_zero v = (case v of None \<Rightarrow> JNum 0 | Some x \<Rightarrow> if truthy x then x else JNum 0)"

definition convertUsageToTimings :: "json \<Rightarrow> thrown + timings" where
  "convertUsageToTimings usage =
     (if usage = JNull then Inl type_error
      else Inr \<lparr> prompt_n = or_zero (get_prop usage ''input_tokens''),
                 predicted_n = or_zero (get_prop usage ''output_tokens''),
                 cache_n = or_zero (prop_chain (get_prop usage ''input_tokens_details'') ''cached_tokens'') \<rparr>)"


section \<open>Callbacks and the cancellation signal\<close>

text \<open>
  The caller's callbacks are all optional. A callback is user code: the model records each
  invocation (\<open>calls\<close>) and lets the callback set the cancellation signal (the function
  of a callback says, for each argument, whether it aborts); callbacks are taken to
  return normally. \<open>aborted\<close> is \<^verbatim>\<open>abortSignal?.aborted\<close>: a request without a signal
  is one whose signal is never set.
\<close>

datatype event =
    OnChunk json
  | OnReasoningChunk json
  | OnToolCallChunk json
  | OnModel json
  | OnTimings timings
  | OnComplete string "string option" "timings option"
  | OnError thrown

record callbacks =
  onChunk :: "(json \<Rightarrow> bool) option"
  onComplete :: "(string \<times> string option \<times> timings option \<Rightarrow> bool) option"
  onError :: "(thrown \<Rightarrow> bool) option"
  onReasoningChunk :: "(json \<Rightarrow> bool) option"
  onToolCallChunk :: "(json \<Rightarrow> bool) option"
  onModel :: "(json \<Rightarrow> bool) option"
  onTimings :: "(timings \<Rightarrow> bool) option"

record world =
  calls :: "event list"
  aborted :: bool

text \<open>\<^verbatim>\<open>cb?.(arg)\<close>\<close>

definition emit :: "('a \<Rightarrow> bool) option \<Rightarrow> 'a \<Rightarrow> event \<Rightarrow> 'w world_scheme \<Rightarrow> 'w world_scheme" where
  "emit cb arg ev w =
     (case cb of
        None \<Rightarrow> w
      | Some f \<Rightarrow> w\<lparr> calls := calls w @ [ev], aborted := (aborted w \<or> f arg) \<rparr>)"

section \<open>The HTTP response\<close>

text \<open>
  What the client observes of a \<^verbatim>\<open>Response\<close>: the status line, the outcome of
  \<^verbatim>\<open>response.text()\<close>, and, for a streamed body, the outcomes of the successive
  \<^verbatim>\<open>reader.read()\<close> calls. Each read comes with the state of the cancellation signal
  when the read settles. A list of reads that runs out stands for a stream that is done.
\<close>

type_synonym bytes = "8 word list"

datatype read_result =
    Value bytes
  | Done
  | Rejected thrown

type_synonym read = "bool \<times> read_result"

record response =
  ok :: bool
  status :: nat
  statusText :: string
  text_result :: "thrown + string"
  body :: "read list option"

section \<open>Error responses\<close>

text \<open>
  \<^verbatim>\<open>parseErrorResponse\<close>. \<open>parse\<close> is \<^verbatim>\<open>JSON.parse\<close>, \<open>None\<close> when it throws.
  Every failure inside the \<^verbatim>\<open>try\<close> (the body cannot be read, is not JSON, or is
  \<^verbatim>\<open>null\<close>) ends in the fallback error.
\<close>

definition if_truthy :: "json option \<Rightarrow> json option" where
  "if_truthy v = (case v of None \<Rightarrow> None | Some x \<Rightarrow> if truthy x then Some x else None)"

definition fallback_error :: "response \<Rightarrow> thrown" where
  "fallback_error r =
     ErrorObj ''HttpError'' (''Server error ('' @ show_nat (status r) @ ''): '' @ statusText r)"

definition parseErrorResponse :: "(string \<Rightarrow> json option) \<Rightarrow> response \<Rightarrow> thrown" where
  "parseErrorResponse parse r =
     (case text_result r of
        Inl e \<Rightarrow> fallback_error r
      | Inr errorText \<Rightarrow>
          (case parse errorText of
             None \<Rightarrow> fallback_error r
           | Some errorData \<Rightarrow>
               if errorData = JNull then fallback_error r
               else
                 let message =
                       (case if_truthy (prop_chain (get_prop errorData ''error'') ''message'') of
                          Some m \<Rightarrow> js_to_string m
                        | None \<Rightarrow> ''Unknown server error'')
                 in ErrorObj (if status r = 400 then ''ServerError'' else ''HttpError'') message))"

section \<open>The streamed response\<close>

text \<open>
  The accumulator of one request (\<^verbatim>\<open>handleStreamResponse\<close>): the locals
  \<^verbatim>\<open>buffer\<close>, \<^verbatim>\<open>aggregatedContent\<close>, \<^verbatim>\<open>fullReasoningContent\<close>,
  \<^verbatim>\<open>lastTimings\<close>, \<^verbatim>\<open>modelEmitted\<close>, the state of the \<^verbatim>\<open>TextDecoder\<close>, and the
  number of \<^verbatim>\<open>console.error\<close> lines written.
\<close>

record 'd stream_state = world +
  decoder :: 'd
  buffer :: string
  aggregatedContent :: string
  fullReasoningContent :: string
  lastTimings :: "timings option"
  modelEmitted :: bool
  console_errors :: nat

text \<open>\<^verbatim>\<open>if (v && !modelEmitted) { modelEmitted = true; onModel?.(v) }\<close>\<close>

definition emit_model :: "callbacks \<Rightarrow> json option \<Rightarrow> 'd stream_state \<Rightarrow> 'd stream_state" where
  "emit_model cbs v st =
     (case if_truthy v of
        None \<Rightarrow> st
      | Some m \<Rightarrow>
          if \<not> modelEmitted st
          then emit (onModel cbs) m (OnModel m) (st\<lparr> modelEmitted := True \<rparr>)
          else st)"

definition text_delta :: "callbacks \<Rightarrow> json \<Rightarrow> 'd stream_state \<Rightarrow> 'd stream_state" where
  "text_delta cbs parsed st =
     (case if_truthy (get_prop parsed ''delta'') of
        None \<Rightarrow> st
      | Some delta \<Rightarrow>
          let st' = st\<lparr> aggregatedContent := aggregatedContent st @ js_to_string delta \<rparr>
          in if \<not> aborted st' then emit (onChunk cbs) delta (OnChunk delta) st' else st')"

definition reasoning_delta :: "callbacks \<Rightarrow> json \<Rightarrow> 'd stream_state \<Rightarrow> 'd stream_state" where
  "reasoning_delta cbs parsed st =
     (case if_truthy (get_prop parsed ''delta'') of
        None \<Rightarrow> st
      | Some delta \<Rightarrow>
          let st' = st\<lparr> fullReasoningContent := fullReasoningContent st @ js_to_string delta \<rparr>
          in if \<not> aborted st' then emit (onReasoningChunk cbs) delta (OnReasoningChunk delta) st'
             else st')"

definition tool_delta :: "callbacks \<Rightarrow> json \<Rightarrow> 'd stream_state \<Rightarrow> 'd stream_state" where
  "tool_delta cbs parsed st =
     (case if_truthy (get_prop parsed ''delta'') of
        None \<Rightarrow> st
      | Some delta \<Rightarrow>
          if \<not> aborted st then emit (onToolCallChunk cbs) delta (OnToolCallChunk delta) st
          else st)"

text \<open>
  The \<^verbatim>\<open>response.completed\<close> / \<^verbatim>\<open>response.done\<close> branch. A throw of the usage
  conversion would be caught by the \<^verbatim>\<open>catch\<close> around the event, which skips the rest.
\<close>

definition completed :: "callbacks \<Rightarrow> json \<Rightarrow> 'd stream_state \<Rightarrow> 'd stream_state" where
  "completed cbs parsed st =
     (let responseData =
            (case if_truthy (get_prop parsed ''response'') of Some r \<Rightarrow> r | None \<Rightarrow> parsed)
      in case if_truthy (get_prop responseData ''usage'') of
           None \<Rightarrow> emit_model cbs (get_prop responseData ''model'') st
         | Some usage \<Rightarrow>
             (case convertUsageToTimings usage of
                Inl e \<Rightarrow> st\<lparr> console_errors := Suc (console_errors st) \<rparr>
              | Inr t \<Rightarrow>
                  emit_model cbs (get_prop responseData ''model'')
                    (emit (onTimings cbs) t (OnTimings t) (st\<lparr> lastTimings := Some t \<rparr>))))"

text \<open>The body of the \<^verbatim>\<open>try\<close> for one parsed event that is not \<^verbatim>\<open>null\<close>.\<close>

definition dispatch :: "callbacks \<Rightarrow> json \<Rightarrow> 'd stream_state \<Rightarrow> 'd stream_state" where
  "dispatch cbs parsed st =
     (let eventType = get_prop parsed ''type'';
          st1 = emit_model cbs (get_prop parsed ''model'') st;
          st2 = (if eventType = Some (JStr ''response.output_text.delta'')
                 then text_delta cbs parsed st1 else st1);
          st3 = (if eventType = Some (JStr ''response.reasoning_summary_text.delta'')
                 then reasoning_delta cbs parsed st2 else st2);
          st4 = (if eventType = Some (JStr ''response.function_call_arguments.delta'')
                 then tool_delta cbs parsed st3 else st3)
      in if eventType = Some (JStr ''response.completed'') \<or> eventType = Some (JStr ''response.done'')
         then completed cbs parsed st4 else st4)"

text \<open>
  One line of the stream. A payload that \<^verbatim>\<open>JSON.parse\<close> rejects, or the payload
  \<^verbatim>\<open>null\<close> (reading \<^verbatim>\<open>parsed.type\<close> throws), is caught, written to the console and
  skipped.
\<close>

definition process_line ::
  "(string \<Rightarrow> json option) \<Rightarrow> callbacks \<Rightarrow> string \<Rightarrow> 'd stream_state \<Rightarrow> 'd stream_state" where
  "process_line parse cbs line st =
     (if starts_with line ''event: '' then st
      else if starts_with line ''data: '' then
        (let data = drop 6 line
         in if data = ''[DONE]'' then st
            else case parse data of
                   None \<Rightarrow> st\<lparr> console_errors := Suc (console_errors st) \<rparr>
                 | Some parsed \<Rightarrow>
                     if parsed = JNull then st\<lparr> console_errors := Suc (console_errors st) \<rparr>
                     else dispatch cbs parsed st)
      else st)"

text \<open>\<^verbatim>\<open>for (const line of lines) { if (abortSignal?.aborted) break; ... }\<close>\<close>

fun process_lines ::
  "(string \<Rightarrow> json option) \<Rightarrow> callbacks \<Rightarrow> string list \<Rightarrow> 'd stream_state \<Rightarrow> 'd stream_state" where
  "process_lines parse cbs [] st = st"
| "process_lines parse cbs (line # lines) st =
     (if aborted st then st
      else process_lines parse cbs lines (process_line parse cbs line st))"

text \<open>\<^verbatim>\<open>s.split('\n')\<close>: never empty (the case of an empty
  result below is never taken); the last segment is what follows the last newline.\<close>

fun split_nl :: "string \<Rightarrow> string list" where
  "split_nl [] = [[]]"
| "split_nl (c # cs) =
     (if c = CHR 0x0A then [] # split_nl cs
      else (case split_nl cs of l # ls \<Rightarrow> (c # l) # ls | [] \<Rightarrow> [[c]]))"

text \<open>
  One chunk: decode it (the decoder keeps an incomplete sequence for the next call),
  append to the buffer, split, keep the last segment as the new buffer and process the
  other segments.
\<close>

definition feed ::
  "('d \<Rightarrow> bytes \<Rightarrow> string \<times> 'd) \<Rightarrow> (string \<Rightarrow> json option) \<Rightarrow> callbacks \<Rightarrow> bytes
     \<Rightarrow> 'd stream_state \<Rightarrow> 'd stream_state" where
  "feed decode parse cbs v st =
     (let (text, d') = decode (decoder st) v;
          lines = split_nl (buffer st @ text)
      in process_lines parse cbs (butlast lines) (st\<lparr> decoder := d', buffer := last lines \<rparr>))"

text \<open>
  The \<^verbatim>\<open>while (true)\<close> loop. The result is the state at the exit and the value thrown
  by a rejected read, if any.
\<close>

fun stream_loop ::
  "('d \<Rightarrow> bytes \<Rightarrow> string \<times> 'd) \<Rightarrow> (string \<Rightarrow> json option) \<Rightarrow> callbacks \<Rightarrow> read list
     \<Rightarrow> 'd stream_state \<Rightarrow> 'd stream_state \<times> thrown option" where
  "stream_loop decode parse cbs [] st = (st, None)"
| "stream_loop decode parse cbs ((sig, r) # reads) st =
     (if aborted st then (st, None)
      else
        let st1 = st\<lparr> aborted := sig \<rparr>
        in case r of
             Rejected e \<Rightarrow> (st1, Some e)
           | Done \<Rightarrow> (st1, None)
           | Value v \<Rightarrow>
               if aborted st1 then (st1, None)
               else
                 let st2 = feed decode parse cbs v st1
                 in if aborted st2 then (st2, None)
                    else stream_loop decode parse cbs reads st2)"

definition initial_state :: "'d \<Rightarrow> world \<Rightarrow> 'd stream_state" where
  "initial_state d w =
     \<lparr> calls = calls w, aborted = aborted w, decoder = d, buffer = [],
       aggregatedContent = [], fullReasoningContent = [], lastTimings = None,
       modelEmitted = False, console_errors = 0 \<rparr>"

definition world_of :: "'d stream_state \<Rightarrow> world" where
  "world_of st = \<lparr> calls = calls st, aborted = aborted st \<rparr>"

definition as_error :: "string \<Rightarrow> thrown \<Rightarrow> thrown" where
  "as_error msg e = (case e of ErrorObj n m \<Rightarrow> e | NonError \<Rightarrow> ErrorObj ''Error'' msg)"

text \<open>
  What follows the loop: a thrown value reaches the \<^verbatim>\<open>catch\<close>, is passed to
  \<^verbatim>\<open>onError\<close> and thrown again; otherwise the completion callback runs unless the
  signal is set.
\<close>

definition after_loop :: "callbacks \<Rightarrow> 'd stream_state \<times> thrown option \<Rightarrow> world \<times> thrown option" where
  "after_loop cbs res =
     (case res of
        (st, Some e) \<Rightarrow>
          (let err = as_error ''Stream error'' e
           in (world_of (emit (onError cbs) err (OnError err) st), Some err))
      | (st, None) \<Rightarrow>
          if aborted st then (world_of st, None)
          else
            (let reasoning = (if fullReasoningContent st = [] then None
                              else Some (fullReasoningContent st))
             in (world_of
                   (emit (onComplete cbs) (aggregatedContent st, reasoning, lastTimings st)
                      (OnComplete (aggregatedContent st) reasoning (lastTimings st)) st),
                 None)))"

text \<open>
  \<^verbatim>\<open>handleStreamResponse\<close>: the world after the call and the error it throws, if any.
  Without a body it throws before the \<^verbatim>\<open>try\<close>. The \<^verbatim>\<open>finally\<close> block releases
  the reader on every path; the reader's lock is not part of the model.
\<close>

definition handleStreamResponse ::
  "('d \<Rightarrow> bytes \<Rightarrow> string \<times> 'd) \<Rightarrow> 'd \<Rightarrow> (string \<Rightarrow> json option) \<Rightarrow> callbacks \<Rightarrow> response
     \<Rightarrow> world \<Rightarrow> world \<times> thrown option" where
  "handleStreamResponse decode d parse cbs resp w =
     (case body resp of
        None \<Rightarrow> (w, Some (ErrorObj ''Error'' ''No response body''))
      | Some reads \<Rightarrow> after_loop cbs (stream_loop decode parse cbs reads (initial_state d w)))"

text \<open>
  The contract of a decoder used with \<^verbatim>\<open>{stream: true}\<close>: decoding a chunk in two
  pieces gives the same text and the same decoder state as decoding it at once, and an
  empty chunk gives no text.
\<close>

definition stream_decoder :: "('d \<Rightarrow> bytes \<Rightarrow> string \<times> 'd) \<Rightarrow> bool" where
  "stream_decoder decode =
     (\<forall>d xs ys. decode d [] = ([], d) \<and>
        decode d (xs @ ys) =
          (case decode d xs of (s1, d1) \<Rightarrow> case decode d1 ys of (s2, d2) \<Rightarrow> (s1 @ s2, d2)))"

text \<open>A body that arrives in the given chunks while the signal stays unset.\<close>

definition chunked :: "bytes list \<Rightarrow> read list" where
  "chunked cs = map (\<lambda>c. (False, Value c)) cs"

section \<open>The response that is not streamed\<close>

definition no_response_error :: thrown where
  "no_response_error = ErrorObj ''Error'' ''No response received from server. Please try again.''"

text \<open>
  \<^verbatim>\<open>for (const x of v)\<close>: an array gives its elements, a string its characters, any
  other value is not iterable.
\<close>

fun iterate :: "json \<Rightarrow> thrown + json list" where
  "iterate (JArr xs) = Inr xs"
| "iterate (JStr s) = Inr (map (\<lambda>c. JStr [c]) s)"
| "iterate v = Inl not_iterable"

text \<open>\<^verbatim>\<open>contentItem.text || ''\<close>, as it is appended to a string.\<close>

definition text_or_empty :: "json \<Rightarrow> string" where
  "text_or_empty contentItem =
     (case if_truthy (get_prop contentItem ''text'') of Some t \<Rightarrow> js_to_string t | None \<Rightarrow> [])"

text \<open>
  The inner loop over the content of one item: entries of the wanted type add their text
  to the accumulator; reading the type of a \<^verbatim>\<open>null\<close> entry throws.
\<close>

fun collect_text :: "string \<Rightarrow> json list \<Rightarrow> string \<Rightarrow> thrown + string" where
  "collect_text kind [] acc = Inr acc"
| "collect_text kind (contentItem # rest) acc =
     (if contentItem = JNull then Inl type_error
      else collect_text kind rest
             (if get_prop contentItem ''type'' = Some (JStr kind)
              then acc @ text_or_empty contentItem else acc))"

text \<open>The two \<^verbatim>\<open>if\<close> blocks for one item of \<^verbatim>\<open>data.output\<close>.\<close>

definition message_item :: "json \<Rightarrow> string \<Rightarrow> thrown + string" where
  "message_item item content =
     (if get_prop item ''type'' = Some (JStr ''message'')
      then (case if_truthy (get_prop item ''content'') of
              None \<Rightarrow> Inr content
            | Some c \<Rightarrow>
                (case iterate c of
                   Inl e \<Rightarrow> Inl e
                 | Inr entries \<Rightarrow> collect_text ''output_text'' entries content))
      else Inr content)"

definition reasoning_item :: "json \<Rightarrow> string \<Rightarrow> thrown + string" where
  "reasoning_item item reasoningContent =
     (if get_prop item ''type'' = Some (JStr ''reasoning'')
      then (case if_truthy (get_prop item ''content'') of
              None \<Rightarrow> Inr reasoningContent
            | Some c \<Rightarrow>
                (case iterate c of
                   Inl e \<Rightarrow> Inl e
                 | Inr entries \<Rightarrow> collect_text ''reasoning_summary_text'' entries reasoningContent))
      else Inr reasoningContent)"

fun walk_output :: "json list \<Rightarrow> string \<times> string \<Rightarrow> thrown + string \<times> string" where
  "walk_output [] acc = Inr acc"
| "walk_output (item # items) (content, reasoningContent) =
     (if item = JNull then Inl type_error
      else case message_item item content of
             Inl e \<Rightarrow> Inl e
           | Inr content' \<Rightarrow>
               (case reasoning_item item reasoningContent of
                  Inl e \<Rightarrow> Inl e
                | Inr reasoning' \<Rightarrow> walk_output items (content', reasoning')))"

text \<open>\<^verbatim>\<open>if (data.output && Array.isArray(data.output)) { ... }\<close>\<close>

definition extract_output :: "json \<Rightarrow> thrown + string \<times> string" where
  "extract_output data =
     (case get_prop data ''output'' of
        Some (JArr items) \<Rightarrow> walk_output items ([], [])
      | _ \<Rightarrow> Inr ([], []))"

text \<open>
  The body of the \<^verbatim>\<open>try\<close> of \<^verbatim>\<open>handleNonStreamResponse\<close>: the world at the point
  where it returns or throws, with the content or the thrown value.
\<close>

definition non_stream_try ::
  "(string \<Rightarrow> json option) \<Rightarrow> callbacks \<Rightarrow> response \<Rightarrow> world \<Rightarrow> world \<times> (thrown + string)" where
  "non_stream_try parse cbs resp w =
     (case text_result resp of
        Inl e \<Rightarrow> (w, Inl e)
      | Inr responseText \<Rightarrow>
          if js_trim responseText = [] then (w, Inl no_response_error)
          else case parse responseText of
                 None \<Rightarrow> (w, Inl syntax_error)
               | Some data \<Rightarrow>
                   if data = JNull then (w, Inl type_error)
                   else
                     let w1 = (case if_truthy (get_prop data ''model'') of
                                 Some m \<Rightarrow> emit (onModel cbs) m (OnModel m) w
                               | None \<Rightarrow> w)
                     in case extract_output data of
                          Inl e \<Rightarrow> (w1, Inl e)
                        | Inr (content, reasoningContent) \<Rightarrow>
                            if js_trim content = [] then (w1, Inl no_response_error)
                            else
                              (case (case if_truthy (get_prop data ''usage'') of
                                       None \<Rightarrow> Inr None
                                     | Some usage \<Rightarrow> map_sum id Some (convertUsageToTimings usage)) of
                                 Inl e \<Rightarrow> (w1, Inl e)
                               | Inr timings \<Rightarrow>
                                   let reasoning = (if reasoningContent = [] then None
                                                    else Some reasoningContent)
                                   in (emit (onComplete cbs) (content, reasoning, timings)
                                         (OnComplete content reasoning timings) w1,
                                       Inr content)))"

text \<open>\<^verbatim>\<open>handleNonStreamResponse\<close>: whatever the \<^verbatim>\<open>try\<close> throws goes to \<^verbatim>\<open>onError\<close> and is thrown again.\<close>

definition handleNonStreamResponse ::
  "(string \<Rightarrow> json option) \<Rightarrow> callbacks \<Rightarrow> response \<Rightarrow> world \<Rightarrow> world \<times> (thrown + string)" where
  "handleNonStreamResponse parse cbs resp w =
     (case non_stream_try parse cbs resp w of
        (w1, Inl e) \<Rightarrow>
          (let err = as_error ''Parse error'' e
           in (emit (onError cbs) err (OnError err) w1, Inl err))
      | (w1, Inr content) \<Rightarrow> (w1, Inr content))"

section \<open>Messages to wire input\<close>

text \<open>
  The attachments of a stored message, by their \<^verbatim>\<open>type\<close> tag, with the fields the
  converter reads; \<open>OtherExtra\<close> is a tag that none of the branches matches.
\<close>

datatype extra =
    ImageFile (base64Url: string)
  | TextFile string string
  | LegacyContext string string
  | AudioFile (base64Data: string) (mimeType: string)
  | PdfFile string string bool "string list option"
  | OtherExtra

record wire_part =
  part_type :: string
  part_text :: "string option"
  part_image_url :: "string option"
  part_input_audio :: "(string \<times> string) option"

datatype wire_content =
    Bare string
  | Parts "wire_part list"

record wire_message =
  role :: string
  content :: wire_content

text \<open>The parts of a message in the shape of the chat API.\<close>

datatype api_part =
    ApiPart (api_type: string) (api_text: "string option") (api_image_url: "string option")
            (api_input_audio: "(string option \<times> string option) option")

datatype api_content =
    ApiText string
  | ApiParts "api_part list"

text \<open>
  The two shapes of an input message: a stored message (it has \<^verbatim>\<open>id\<close>,
  \<^verbatim>\<open>convId\<close> and \<^verbatim>\<open>timestamp\<close>) with its optional attachments, or a message of the
  chat API.
\<close>

datatype message =
    DatabaseMessage string string "extra list option"
  | ApiChatMessageData string api_content

definition text_part :: "string option \<Rightarrow> wire_part" where
  "text_part t = \<lparr> part_type = ''input_text'', part_text = t, part_image_url = None,
                   part_input_audio = None \<rparr>"

definition image_part :: "string option \<Rightarrow> wire_part" where
  "image_part u = \<lparr> part_type = ''input_image'', part_text = None, part_image_url = u,
                    part_input_audio = None \<rparr>"

definition audio_part :: "string \<Rightarrow> string \<Rightarrow> wire_part" where
  "audio_part d f = \<lparr> part_type = ''input_audio'', part_text = None, part_image_url = None,
                      part_input_audio = Some (d, f) \<rparr>"

definition file_banner :: "string \<Rightarrow> string \<Rightarrow> string \<Rightarrow> string" where
  "file_banner label name text =
     [CHR 0x0A, CHR 0x0A] @ ''--- '' @ label @ '': '' @ name @ '' ---'' @ [CHR 0x0A] @ text"

fun extra_parts :: "extra \<Rightarrow> wire_part list" where
  "extra_parts (ImageFile url) = [image_part (Some url)]"
| "extra_parts (TextFile name text) = [text_part (Some (file_banner ''File'' name text))]"
| "extra_parts (LegacyContext name text) = [text_part (Some (file_banner ''File'' name text))]"
| "extra_parts (AudioFile d mime) =
     [audio_part d (if str_includes mime ''wav'' then ''wav'' else ''mp3'')]"
| "extra_parts (PdfFile name text processedAsImages images) =
     (case (if processedAsImages then images else None) of
        Some urls \<Rightarrow> map (\<lambda>u. image_part (Some u)) urls
      | None \<Rightarrow> [text_part (Some (file_banner ''PDF File'' name text))])"
| "extra_parts OtherExtra = []"

text \<open>\<^verbatim>\<open>convertExtrasToContent\<close>\<close>

definition convertExtrasToContent :: "string \<Rightarrow> extra list option \<Rightarrow> wire_part list" where
  "convertExtrasToContent text extras =
     (let contentParts = (if text \<noteq> [] then [text_part (Some text)] else [])
      in case extras of
           None \<Rightarrow> contentParts
         | Some es \<Rightarrow> contentParts @ concat (map extra_parts es))"

text \<open>\<^verbatim>\<open>convertApiContentParts\<close>\<close>

definition or_default :: "string option \<Rightarrow> string \<Rightarrow> string" where
  "or_default v d = (case v of None \<Rightarrow> d | Some s \<Rightarrow> if s = [] then d else s)"

definition convert_api_part :: "api_part \<Rightarrow> wire_part" where
  "convert_api_part p =
     (if api_type p = ''text'' then text_part (api_text p)
      else if api_type p = ''image_url'' then image_part (api_image_url p)
      else if api_type p = ''input_audio'' then
        audio_part (or_default (case api_input_audio p of None \<Rightarrow> None | Some a \<Rightarrow> fst a) [])
                   (or_default (case api_input_audio p of None \<Rightarrow> None | Some a \<Rightarrow> snd a) ''wav'')
      else text_part (Some []))"

definition convertApiContentParts :: "api_part list \<Rightarrow> wire_part list" where
  "convertApiContentParts parts = map convert_api_part parts"

text \<open>The role and the content that one message is given.\<close>

definition wire_role :: "string \<Rightarrow> string" where
  "wire_role r = (if r = ''system'' then ''developer'' else r)"

fun wire_of :: "message \<Rightarrow> wire_message" where
  "wire_of (DatabaseMessage r text extras) =
     \<lparr> role = wire_role r,
       content = (if extras = None \<or> extras = Some [] then Bare text
                  else Parts (convertExtrasToContent text extras)) \<rparr>"
| "wire_of (ApiChatMessageData r c) =
     \<lparr> role = wire_role r,
       content = (case c of ApiText s \<Rightarrow> Bare s | ApiParts ps \<Rightarrow> Parts (convertApiContentParts ps)) \<rparr>"

text \<open>\<^verbatim>\<open>role === 'developer' && typeof content === 'string' && !content.trim()\<close>\<close>

definition blank_developer :: "wire_message \<Rightarrow> bool" where
  "blank_developer m =
     (role m = ''developer'' \<and> (case content m of Bare s \<Rightarrow> js_trim s = [] | Parts ps \<Rightarrow> False))"

text \<open>\<^verbatim>\<open>convertMessagesToInput\<close>: the loop that fills \<^verbatim>\<open>input\<close>.\<close>

fun convert_loop :: "message list \<Rightarrow> wire_message list \<Rightarrow> wire_message list" where
  "convert_loop [] input = input"
| "convert_loop (msg # msgs) input =
     (let m = wire_of msg
      in if blank_developer m then convert_loop msgs input
         else convert_loop msgs (input @ [m]))"

definition convertMessagesToInput :: "message list \<Rightarrow> wire_message list" where
  "convertMessagesToInput messages = convert_loop messages []"

section \<open>Sending a message\<close>

text \<open>
  The options of \<^verbatim>\<open>sendMessage\<close>; \<open>None\<close> is a property that is
  \<^verbatim>\<open>undefined\<close>. The custom parameters are a string of JSON or a value.
\<close>

datatype custom_params =
    CustomText string
  | CustomValue json

record options =
  stream :: "bool option"
  model :: "string option"
  temperature :: "json option"
  max_tokens :: "json option"
  top_p :: "json option"
  custom :: "custom_params option"
  disableReasoningFormat :: "bool option"
  callbacks :: callbacks

text \<open>
  The values of the properties of \<^verbatim>\<open>requestBody\<close>. The object is an association
  list in insertion order: assigning to a key replaces its value in place or appends
  the key.
\<close>

datatype body_value =
    Undefined
  | Plain json
  | Messages "wire_message list"

type_synonym request_body = "(string \<times> body_value) list"

text \<open>
  The own enumerable properties that \<^verbatim>\<open>Object.assign\<close> copies from a source. The
  order in which an engine lists integer-like keys, and the key \<^verbatim>\<open>__proto__\<close>, are
  not modelled.
\<close>

fun own_props :: "json \<Rightarrow> (string \<times> json) list" where
  "own_props (JObj kvs) = kvs"
| "own_props (JArr xs) = zip (map show_nat [0..<length xs]) xs"
| "own_props (JStr s) = zip (map show_nat [0..<length s]) (map (\<lambda>c. JStr [c]) s)"
| "own_props v = []"

definition assign :: "request_body \<Rightarrow> (string \<times> json) list \<Rightarrow> request_body" where
  "assign target props = foldl (\<lambda>obj (k, v). AList.update k (Plain v) obj) target props"

text \<open>
  \<^verbatim>\<open>if (custom) { try { ... Object.assign(requestBody, customParams) } catch { warn } }\<close>:
  the properties that the custom parameters add to the body. A string is parsed first,
  whichever way it is given.
\<close>

definition parsed_props :: "(string \<Rightarrow> json option) \<Rightarrow> string \<Rightarrow> (string \<times> json) list" where
  "parsed_props parse t =
     (if t = [] then [] else case parse t of None \<Rightarrow> [] | Some v \<Rightarrow> own_props v)"

definition custom_props :: "(string \<Rightarrow> json option) \<Rightarrow> custom_params option \<Rightarrow> (string \<times> json) list" where
  "custom_props parse c =
     (case c of
        None \<Rightarrow> []
      | Some (CustomText t) \<Rightarrow> parsed_props parse t
      | Some (CustomValue v) \<Rightarrow>
          (case v of
             JStr t \<Rightarrow> parsed_props parse t
           | _ \<Rightarrow> if truthy v then own_props v else []))"

definition set_if :: "bool \<Rightarrow> string \<Rightarrow> body_value \<Rightarrow> request_body \<Rightarrow> request_body" where
  "set_if c k v obj = (if c then AList.update k v obj else obj)"

text \<open>The object \<^verbatim>\<open>requestBody\<close> when it is handed to \<^verbatim>\<open>JSON.stringify\<close>.\<close>

definition request_body ::
  "(string \<Rightarrow> json option) \<Rightarrow> options \<Rightarrow> wire_message list \<Rightarrow> request_body" where
  "request_body parse opts input =
     (let b0 = [(''input'', Messages input),
                (''stream'', Plain (JBool (case stream opts of None \<Rightarrow> True | Some b \<Rightarrow> b))),
                (''store'', Plain (JBool False))];
          b1 = (case model opts of
                  None \<Rightarrow> b0
                | Some m \<Rightarrow> set_if (m \<noteq> []) ''model'' (Plain (JStr m)) b0);
          b2 = (case temperature opts of
                  None \<Rightarrow> b1
                | Some t \<Rightarrow> AList.update ''temperature'' (Plain t) b1);
          b3 = (case max_tokens opts of
                  None \<Rightarrow> b2
                | Some n \<Rightarrow>
                    AList.update ''max_output_tokens''
                      (if n \<noteq> JNull \<and> n \<noteq> JNum 0 then Plain n else Undefined) b2);
          b4 = (case top_p opts of
                  None \<Rightarrow> b3
                | Some t \<Rightarrow> AList.update ''top_p'' (Plain t) b3);
          b5 = set_if (disableReasoningFormat opts \<noteq> Some True) ''reasoning''
                 (Plain (JObj [(''effort'', JStr ''medium'')])) b4
      in assign b5 (custom_props parse (custom opts)))"

text \<open>What \<^verbatim>\<open>JSON.stringify\<close> writes: properties whose value is \<^verbatim>\<open>undefined\<close> are left out.\<close>

definition wire_body :: "request_body \<Rightarrow> request_body" where
  "wire_body b = filter (\<lambda>(k, v). v \<noteq> Undefined) b"

text \<open>
  The \<^verbatim>\<open>catch\<close> of \<^verbatim>\<open>sendMessage\<close>: an error named \<^verbatim>\<open>AbortError\<close> ends the call
  quietly; any other thrown value is turned into the error for the user, passed to
  \<^verbatim>\<open>onError\<close> and thrown.
\<close>

definition user_friendly :: "thrown \<Rightarrow> thrown" where
  "user_friendly e =
     (case e of
        NonError \<Rightarrow> ErrorObj ''Error'' ''Unknown error occurred while sending message''
      | ErrorObj n m \<Rightarrow>
          if n = ''TypeError'' \<and> str_includes m ''fetch''
          then ErrorObj ''NetworkError''
                 ''Unable to connect to server - please check if the server is running''
          else if str_includes m ''ECONNREFUSED''
          then ErrorObj ''NetworkError'' ''Connection refused - server may be offline''
          else if str_includes m ''ETIMEDOUT''
          then ErrorObj ''TimeoutError'' ''Request timed out - the server took too long to respond''
          else e)"

definition send_catch :: "callbacks \<Rightarrow> thrown \<Rightarrow> world \<Rightarrow> world \<times> (thrown + string option)" where
  "send_catch cbs e w =
     (case e of
        ErrorObj n m \<Rightarrow>
          if n = ''AbortError'' then (w, Inr None)
          else (emit (onError cbs) (user_friendly e) (OnError (user_friendly e)) w,
                Inl (user_friendly e))
      | NonError \<Rightarrow>
          (emit (onError cbs) (user_friendly e) (OnError (user_friendly e)) w,
           Inl (user_friendly e)))"

text \<open>
  \<^verbatim>\<open>sendMessage\<close>. \<open>fetch\<close> is the outcome of the request for the body that is
  sent, \<open>w\<close> the world when \<^verbatim>\<open>fetch\<close> settles. The result is the world after
  the call and what the returned promise settles to: a thrown value, or the text
  (\<open>None\<close> for \<^verbatim>\<open>undefined\<close>). The promise of \<^verbatim>\<open>handleNonStreamResponse\<close> is returned
  without \<^verbatim>\<open>await\<close>, so its rejection does not pass through the \<^verbatim>\<open>catch\<close>; the
  streamed branch is awaited and does. The headers of the request (the API key among
  them) are not modelled.
\<close>

definition sendMessage ::
  "('d \<Rightarrow> bytes \<Rightarrow> string \<times> 'd) \<Rightarrow> 'd \<Rightarrow> (string \<Rightarrow> json option)
     \<Rightarrow> (request_body \<Rightarrow> thrown + response) \<Rightarrow> message list \<Rightarrow> options \<Rightarrow> world
     \<Rightarrow> world \<times> (thrown + string option)" where
  "sendMessage decode d parse fetch messages opts w =
     (let cbs = callbacks opts;
          input = convertMessagesToInput messages;
          requestBody = request_body parse opts input
      in case fetch (wire_body requestBody) of
           Inl e \<Rightarrow> send_catch cbs e w
         | Inr resp \<Rightarrow>
             if \<not> ok resp then
               (let error = parseErrorResponse parse resp
                in send_catch cbs error (emit (onError cbs) error (OnError error) w))
             else if stream opts = Some True then
               (case handleStreamResponse decode d parse cbs resp w of
                  (w1, Some e) \<Rightarrow> send_catch cbs e w1
                | (w1, None) \<Rightarrow> (w1, Inr None))
             else
               (case handleNonStreamResponse parse cbs resp w of
                  (w1, Inl e) \<Rightarrow> (w1, Inl e)
                | (w1, Inr text) \<Rightarrow> (w1, Inr (Some text))))"

section \<open>The shape of a response body\<close>














text \<open>A line of the stream that carries a payload.\<close>

definition data_line :: "string \<Rightarrow> string" where
  "data_line payload = ''data: '' @ payload"


section \<open>Sample environment\<close>

text \<open>
  Concrete values for the examples: a decoder that reads every byte as one code unit
  (what the UTF-8 decoder does on ASCII input), a parser given by a table, and callbacks
  that are all present and never cancel.
\<close>

definition bytes_of :: "string \<Rightarrow> bytes" where
  "bytes_of s = map of_char s"

definition byte_decoder :: "unit \<Rightarrow> bytes \<Rightarrow> string \<times> unit" where
  "byte_decoder d bs = (map (\<lambda>b. char_of (unat b)) bs, d)"

definition table_parser :: "(string \<times> json) list \<Rightarrow> string \<Rightarrow> json option" where
  "table_parser tab s = map_of tab s"

definition recording :: callbacks where
  "recording =
     \<lparr> onChunk = Some (\<lambda>x. False), onComplete = Some (\<lambda>x. False), onError = Some (\<lambda>x. False),
       onReasoningChunk = Some (\<lambda>x. False), onToolCallChunk = Some (\<lambda>x. False),
       onModel = Some (\<lambda>x. False), onTimings = Some (\<lambda>x. False) \<rparr>"

definition fresh :: world where
  "fresh = \<lparr> calls = [], aborted = False \<rparr>"

definition stream_of :: "read list \<Rightarrow> response" where
  "stream_of reads =
     \<lparr> ok = True, status = 200, statusText = ''OK'', text_result = Inr [], body = Some reads \<rparr>"

text \<open>Replacing the decoder state and the buffer of a state.\<close>

definition rebuffer :: "'d \<Rightarrow> string \<Rightarrow> 'd stream_state \<Rightarrow> 'd stream_state" where
  "rebuffer d b st = st\<lparr> decoder := d, buffer := b \<rparr>"

text \<open>Payloads for the examples, with the values that \<^verbatim>\<open>JSON.parse\<close> gives for them.\<close>

definition hel_event :: string where
  \<open>hel_event = ''{"type":"response.output_text.delta","delta":"Hel","model":"m1"}''\<close>

definition lo_event :: string where
  \<open>lo_event = ''{"type":"response.output_text.delta","delta":"lo"}''\<close>

definition completed_event :: string where
  \<open>completed_event =
     ''{"type":"response.completed","response":{"model":"m2","usage":{"input_tokens":3}}}''\<close>

definition error_body :: string where
  \<open>error_body = ''{"error":{"message":"no such model"}}''\<close>

definition empty_error_body :: string where
  \<open>empty_error_body = ''{"error":{"message":""}}''\<close>

definition reasoning_only_body :: string where
  \<open>reasoning_only_body = ''{"model":"m1","output":[{"type":"reasoning","content":[]}]}''\<close>

definition null_item_body :: string where
  \<open>null_item_body = ''{"output":[null]}''\<close>

definition sample_parser :: "string \<Rightarrow> json option" where
  "sample_parser = table_parser
     [(hel_event,
       JObj [(''type'', JStr ''response.output_text.delta''), (''delta'', JStr ''Hel''),
             (''model'', JStr ''m1'')]),
      (lo_event,
       JObj [(''type'', JStr ''response.output_text.delta''), (''delta'', JStr ''lo'')]),
      (completed_event,
       JObj [(''type'', JStr ''response.completed''),
             (''response'', JObj [(''model'', JStr ''m2''),
                                  (''usage'', JObj [(''input_tokens'', JNum 3)])])]),
      (error_body,
       JObj [(''error'', JObj [(''message'', JStr ''no such model'')])]),
      (empty_error_body,
       JObj [(''error'', JObj [(''message'', JStr [])])]),
      (reasoning_only_body,
       JObj [(''model'', JStr ''m1''),
             (''output'', JArr [JObj [(''type'', JStr ''reasoning''), (''content'', JArr [])]])]),
      (null_item_body, JObj [(''output'', JArr [JNull])])]"

definition newline :: string where
  "newline = [CHR 0x0A]"

text \<open>A stream of two reads that cut an event in two; a state in which the model has been emitted.\<close>

definition two_models :: "bytes list" where
  "two_models =
     [bytes_of (''data: '' @ hel_event @ newline @ ''data: '' @ take 20 completed_event),
      bytes_of (drop 20 completed_event @ newline)]"

definition emitted_state :: "unit stream_state" where
  "emitted_state = (initial_state () fresh)\<lparr> modelEmitted := True \<rparr>"

text \<open>A stream of three reads that cut the first event and the line ends; its last line has no newline.\<close>

definition split_stream :: "bytes list" where
  "split_stream =
     [bytes_of (''data: '' @ take 40 hel_event),
      bytes_of (drop 40 hel_event @ newline @ ''data: '' @ lo_event),
      bytes_of (newline @ ''data: '' @ lo_event)]"

text \<open>Two text deltas around a payload that is not JSON, in two reads.\<close>

definition sandwich :: "bytes list" where
  "sandwich =
     [bytes_of (data_line hel_event @ newline @ take 9 (data_line ''{oops'')),
      bytes_of (drop 9 (data_line ''{oops'') @ newline @ data_line lo_event @ newline)]"


text \<open>Values for the examples of cancellation.\<close>

definition abort_error :: thrown where
  "abort_error = ErrorObj ''AbortError'' ''The operation was aborted.''"

definition cancelled :: world where
  "cancelled = \<lparr> calls = [], aborted = True \<rparr>"

definition streaming :: options where
  "streaming =
     \<lparr> stream = Some True, model = None, temperature = None, max_tokens = None, top_p = None,
       custom = None, disableReasoningFormat = None, callbacks = recording \<rparr>"

definition timings_cancels :: callbacks where
  "timings_cancels = recording\<lparr> onTimings := Some (\<lambda>t. True) \<rparr>"


definition plain :: options where
  "plain =
     \<lparr> stream = Some False, model = None, temperature = None, max_tokens = None, top_p = None,
       custom = None, disableReasoningFormat = None, callbacks = recording \<rparr>"


text \<open>A response with an error status.\<close>

definition error_reply :: "nat \<Rightarrow> string \<Rightarrow> string \<Rightarrow> response" where
  "error_reply code reason text =
     \<lparr> ok = False, status = code, statusText = reason, text_result = Inr text, body = None \<rparr>"

text \<open>Bodies outside the shape of the API, and a second table for them.\<close>

definition null_item_model_body :: string where
  \<open>null_item_model_body = ''{"model":"m1","output":[null]}''\<close>

definition empty_model_body :: string where
  \<open>empty_model_body = ''{"model":"","output":[]}''\<close>

definition numeric_content_body :: string where
  \<open>numeric_content_body = ''{"output":[{"type":"reasoning","content":5}]}''\<close>

definition null_body :: string where
  "null_body = ''null''"

definition reply_parser :: "string \<Rightarrow> json option" where
  "reply_parser = table_parser
     [(null_item_model_body, JObj [(''model'', JStr ''m1''), (''output'', JArr [JNull])]),
      (empty_model_body, JObj [(''model'', JStr []), (''output'', JArr [])]),
      (numeric_content_body,
       JObj [(''output'', JArr [JObj [(''type'', JStr ''reasoning''), (''content'', JNum 5)]])]),
      (null_item_body, JObj [(''output'', JArr [JNull])]),
      (null_body, JNull)]"

text \<open>An error response whose body cannot be read.\<close>

definition unread_reply :: response where
  "unread_reply =
     \<lparr> ok = False, status = 503, statusText = ''Service Unavailable'',
       text_result = Inl NonError, body = None \<rparr>"

text \<open>Options with a token limit, and options whose custom parameters set the limit.\<close>

definition overriding :: options where
  "overriding = plain\<lparr> max_tokens := Some (JNum 0),
                         custom := Some (CustomValue (JObj [(''max_output_tokens'', JNum 99)])) \<rparr>"

definition limited :: options where
  "limited = plain\<lparr> max_tokens := Some (JNum 256) \<rparr>"

text \<open>The request body before the custom parameters are merged in.\<close>

definition base_body :: "(string \<Rightarrow> json option) \<Rightarrow> options \<Rightarrow> wire_message list \<Rightarrow> request_body" where
  "base_body parse opts input = request_body parse (opts\<lparr> custom := None \<rparr>) input"

text \<open>A wire message whose content is a sequence of parts.\<close>

fun is_sequence :: "wire_message \<Rightarrow> bool" where
  "is_sequence m = (case content m of Parts ps \<Rightarrow> True | Bare s \<Rightarrow> False)"

text \<open>Stored and API messages, with a blank system message and a system message that has an attachment.\<close>

definition conversation :: "message list" where
  "conversation =
     [DatabaseMessage ''system'' ''  '' None,
      ApiChatMessageData ''system'' (ApiText ''Be brief.''),
      DatabaseMessage ''system'' [] (Some [AudioFile ''UklGRg=='' ''audio/wav'']),
      DatabaseMessage ''user'' ''Hi'' (Some []),
      ApiChatMessageData ''user'' (ApiParts [ApiPart ''text'' (Some ''see'') None None])]"

section \<open>Measures used in the statements\<close>

fun is_model_call :: "event \<Rightarrow> bool" where
  "is_model_call (OnModel m) = True"
| "is_model_call ev = False"

definition model_calls :: "'w world_scheme \<Rightarrow> nat" where
  "model_calls w = length (filter is_model_call (calls w))"

text \<open>Model callbacks made so far, plus one while \<^verbatim>\<open>modelEmitted\<close> is still unset.\<close>

definition model_budget :: "'d stream_state \<Rightarrow> nat" where
  "model_budget st = model_calls st + (if modelEmitted st then 0 else 1)"

definition model_step :: "'d stream_state \<Rightarrow> 'd stream_state \<Rightarrow> bool" where
  "model_step a b = (model_budget b \<le> model_budget a \<and> model_calls a \<le> model_calls b)"




section \<open>Properties\<close>

subsection \<open>Usage counters\<close>

text \<open>
  Claim C8. \<^verbatim>\<open>convertUsageToTimings\<close> succeeds on every usage payload (every value
  other than \<^verbatim>\<open>null\<close>, which the declared parameter type excludes and no caller
  passes); a counter that is missing from the payload comes out as zero; and the payload
  \<^verbatim>\<open>{input_tokens: 10, output_tokens: 5, input_tokens_details: {cached_tokens: 2}}\<close>
  gives \<^verbatim>\<open>{prompt_n: 10, predicted_n: 5, cache_n: 2}\<close>.
\<close>

theorem convertUsageToTimings_total:
  assumes "usage \<noteq> JNull"
  shows "(\<exists>t. convertUsageToTimings usage = Inr t \<and>
            (get_prop usage ''input_tokens'' = None \<longrightarrow> prompt_n t = JNum 0) \<and>
            (get_prop usage ''output_tokens'' = None \<longrightarrow> predicted_n t = JNum 0) \<and>
            (prop_chain (get_prop usage ''input_tokens_details'') ''cached_tokens'' = None
               \<longrightarrow> cache_n t = JNum 0)) \<and>
         convertUsageToTimings
           (JObj [(''input_tokens'', JNum 10), (''output_tokens'', JNum 5),
                  (''input_tokens_details'', JObj [(''cached_tokens'', JNum 2)])])
         = Inr \<lparr> prompt_n = JNum 10, predicted_n = JNum 5, cache_n = JNum 2 \<rparr>"
  using assms by (simp add: convertUsageToTimings_def or_zero_def prop_chain_def)

theorem convertUsageToTimings_total_witness:
  "JObj [(''output_tokens'', JNum 7)] \<noteq> JNull \<and>
   convertUsageToTimings (JObj [(''output_tokens'', JNum 7)])
     = Inr \<lparr> prompt_n = JNum 0, predicted_n = JNum 7, cache_n = JNum 0 \<rparr>"
  using convertUsageToTimings_total [of "JObj [(''output_tokens'', JNum 7)]"]
  by (simp add: convertUsageToTimings_def or_zero_def prop_chain_def)

subsection \<open>The model callback\<close>

lemma emit_other_model_calls:
  "\<not> is_model_call ev \<Longrightarrow> model_calls (emit cb arg ev st) = model_calls st"
  by (simp add: emit_def model_calls_def split: option.splits)

lemma emit_modelEmitted [simp]: "modelEmitted (emit cb arg ev st) = modelEmitted st"
  by (simp add: emit_def split: option.splits)

lemma model_step_refl [simp]: "model_step a a"
  by (simp add: model_step_def)

lemma model_step_trans: "model_step a b \<Longrightarrow> model_step b c \<Longrightarrow> model_step a c"
  by (auto simp: model_step_def)

lemma model_step_emit_model: "model_step st (emit_model cbs v st)"
  by (simp add: model_step_def emit_model_def model_budget_def model_calls_def emit_def
           split: option.splits)

lemma model_step_text_delta: "model_step st (text_delta cbs p st)"
  by (simp add: text_delta_def model_step_def model_budget_def Let_def emit_other_model_calls
           split: option.splits)
     (simp add: model_calls_def)

lemma model_step_reasoning_delta: "model_step st (reasoning_delta cbs p st)"
  by (simp add: reasoning_delta_def model_step_def model_budget_def Let_def emit_other_model_calls
           split: option.splits)
     (simp add: model_calls_def)

lemma model_step_tool_delta: "model_step st (tool_delta cbs p st)"
  by (simp add: tool_delta_def model_step_def model_budget_def Let_def emit_other_model_calls
           split: option.splits)

lemma model_step_timings:
  "model_step st (emit cb t (OnTimings t') (st\<lparr> lastTimings := x \<rparr>))"
  by (simp add: model_step_def model_budget_def emit_other_model_calls) (simp add: model_calls_def)

lemma model_step_console:
  "model_step st (st\<lparr> console_errors := n \<rparr>)"
  by (simp add: model_step_def model_budget_def model_calls_def)

lemma model_step_completed: "model_step st (completed cbs p st)"
  unfolding completed_def Let_def
  by (auto split: option.splits sum.splits
           intro: model_step_emit_model model_step_console
                  model_step_trans [OF model_step_timings model_step_emit_model])

lemma model_step_dispatch: "model_step st (dispatch cbs p st)"
proof -
  let ?s1 = "emit_model cbs (get_prop p ''model'') st"
  have 1: "model_step st ?s1" by (rule model_step_emit_model)
  obtain s2 where s2: "model_step ?s1 s2"
    "s2 = (if get_prop p ''type'' = Some (JStr ''response.output_text.delta'')
           then text_delta cbs p ?s1 else ?s1)"
    by (simp add: model_step_text_delta)
  obtain s3 where s3: "model_step s2 s3"
    "s3 = (if get_prop p ''type'' = Some (JStr ''response.reasoning_summary_text.delta'')
           then reasoning_delta cbs p s2 else s2)"
    by (simp add: model_step_reasoning_delta)
  obtain s4 where s4: "model_step s3 s4"
    "s4 = (if get_prop p ''type'' = Some (JStr ''response.function_call_arguments.delta'')
           then tool_delta cbs p s3 else s3)"
    by (simp add: model_step_tool_delta)
  obtain s5 where s5: "model_step s4 s5"
    "s5 = (if get_prop p ''type'' = Some (JStr ''response.completed'')
              \<or> get_prop p ''type'' = Some (JStr ''response.done'')
           then completed cbs p s4 else s4)"
    by (simp add: model_step_completed)
  have "dispatch cbs p st = s5"
    unfolding dispatch_def Let_def s5(2) s4(2) s3(2) s2(2) by (rule refl)
  moreover have "model_step st s5"
    using 1 s2(1) s3(1) s4(1) s5(1) by (blast intro: model_step_trans)
  ultimately show ?thesis by simp
qed

lemma model_step_process_line: "model_step st (process_line parse cbs line st)"
  by (simp add: process_line_def Let_def model_step_dispatch model_step_console split: option.splits)

lemma model_step_process_lines: "model_step st (process_lines parse cbs lines st)"
proof (induction lines arbitrary: st)
  case Nil
  show ?case by simp
next
  case (Cons l ls)
  show ?case
    using model_step_trans [OF model_step_process_line Cons.IH] by simp
qed

lemma model_step_feed: "model_step st (feed decode parse cbs v st)"
proof -
  have a: "\<And>d b. model_step st (st\<lparr> decoder := d, buffer := b \<rparr>)"
    by (simp add: model_step_def model_budget_def model_calls_def)
  show ?thesis
    unfolding feed_def Let_def
    by (auto split: prod.splits intro: model_step_trans [OF a model_step_process_lines])
qed

lemma model_step_aborted: "model_step st (st\<lparr> aborted := b \<rparr>)"
  by (simp add: model_step_def model_budget_def model_calls_def)

lemma model_step_stream_loop: "model_step st (fst (stream_loop decode parse cbs reads st))"
proof (induction reads arbitrary: st)
  case Nil
  show ?case by simp
next
  case (Cons r rs)
  obtain sig res where r: "r = (sig, res)" by (cases r)
  show ?case
  proof (cases res)
    case (Value v)
    let ?s1 = "st\<lparr> aborted := sig \<rparr>"
    let ?s2 = "feed decode parse cbs v ?s1"
    have "model_step st ?s2"
      by (rule model_step_trans [OF model_step_aborted model_step_feed])
    moreover have "model_step st (fst (stream_loop decode parse cbs rs ?s2))"
      by (rule model_step_trans [OF \<open>model_step st ?s2\<close> Cons.IH])
    ultimately show ?thesis
      using r Value by (cases sig) (simp_all add: Let_def model_step_aborted)
  qed (simp_all add: r model_step_aborted)
qed


lemma world_of_calls [simp]: "model_calls (world_of st) = model_calls st"
  by (simp add: world_of_def model_calls_def)

lemma model_calls_after_loop:
  "model_calls (fst (after_loop cbs (st, r))) = model_calls st"
  by (simp add: after_loop_def Let_def emit_other_model_calls split: option.splits)

lemma initial_budget: "model_budget (initial_state d w) = model_calls w + 1"
  by (simp add: model_budget_def initial_state_def model_calls_def)

text \<open>
  Claim C3. In one request \<^verbatim>\<open>handleStreamResponse\<close> invokes the model callback at most
  once, whatever the reads deliver and however many events carry a \<^verbatim>\<open>model\<close> or a
  \<^verbatim>\<open>response.model\<close> field; and once \<^verbatim>\<open>modelEmitted\<close> is set, a line leaves it set
  and invokes no model callback.
\<close>

theorem model_callback_at_most_once: 
  "model_calls (fst (handleStreamResponse decode d parse cbs resp w)) \<le> model_calls w + 1 \<and>
   (modelEmitted st \<longrightarrow>
      modelEmitted (process_line parse cbs line st) \<and>
      model_calls (process_line parse cbs line st) = model_calls st)"
proof
  show "model_calls (fst (handleStreamResponse decode d parse cbs resp w)) \<le> model_calls w + 1"
  proof (cases "body resp")
    case None
    then show ?thesis by (simp add: handleStreamResponse_def)
  next
    case (Some reads)
    obtain st' r where l: "stream_loop decode parse cbs reads (initial_state d w) = (st', r)"
      by (cases "stream_loop decode parse cbs reads (initial_state d w)")
    have "model_step (initial_state d w) st'"
      using model_step_stream_loop [of "initial_state d w" decode parse cbs reads] l by simp
    then have "model_budget st' \<le> model_calls w + 1"
      by (simp add: model_step_def initial_budget)
    then have "model_calls st' \<le> model_calls w + 1"
      by (simp add: model_budget_def split: if_splits)
    then show ?thesis
      by (simp add: handleStreamResponse_def Some l model_calls_after_loop)
  qed
next
  show "modelEmitted st \<longrightarrow>
      modelEmitted (process_line parse cbs line st) \<and>
      model_calls (process_line parse cbs line st) = model_calls st"
    using model_step_process_line [of st parse cbs line]
    by (auto simp: model_step_def model_budget_def split: if_splits)
qed



theorem model_callback_at_most_once_witness:
  "model_calls (fst (handleStreamResponse byte_decoder () sample_parser recording
                       (stream_of (chunked two_models)) fresh)) \<le> model_calls fresh + 1 \<and>
   calls (fst (handleStreamResponse byte_decoder () sample_parser recording
                 (stream_of (chunked two_models)) fresh))
     = [OnModel (JStr ''m1''), OnChunk (JStr ''Hel''),
        OnTimings \<lparr> prompt_n = JNum 3, predicted_n = JNum 0, cache_n = JNum 0 \<rparr>,
        OnComplete ''Hel'' None
          (Some \<lparr> prompt_n = JNum 3, predicted_n = JNum 0, cache_n = JNum 0 \<rparr>)] \<and>
   modelEmitted emitted_state \<and>
   modelEmitted (process_line sample_parser recording (''data: '' @ completed_event) emitted_state) \<and>
   model_calls (process_line sample_parser recording (''data: '' @ completed_event) emitted_state)
     = model_calls emitted_state"
proof -
  have e: "calls (fst (handleStreamResponse byte_decoder () sample_parser recording
                 (stream_of (chunked two_models)) fresh))
     = [OnModel (JStr ''m1''), OnChunk (JStr ''Hel''),
        OnTimings \<lparr> prompt_n = JNum 3, predicted_n = JNum 0, cache_n = JNum 0 \<rparr>,
        OnComplete ''Hel'' None
          (Some \<lparr> prompt_n = JNum 3, predicted_n = JNum 0, cache_n = JNum 0 \<rparr>)]"
    by code_simp
  have m: "modelEmitted emitted_state"
    by (simp add: emitted_state_def)
  show ?thesis
    using e m
      model_callback_at_most_once [of byte_decoder "()" sample_parser recording
        "stream_of (chunked two_models)" fresh emitted_state "''data: '' @ completed_event"]
    by simp
qed

subsection \<open>The sample decoder\<close>

lemma stream_decoder_byte_decoder: "stream_decoder byte_decoder"
  by (simp add: stream_decoder_def byte_decoder_def)

subsection \<open>The buffer and the decoder do not influence the processing of lines\<close>

lemma rebuffer_fields [simp]:
  "aborted (rebuffer d b st) = aborted st"
  "modelEmitted (rebuffer d b st) = modelEmitted st"
  "decoder (rebuffer d b st) = d"
  "buffer (rebuffer d b st) = b"
  "rebuffer d b (rebuffer d' b' st) = rebuffer d b st"
  by (simp_all add: rebuffer_def)

lemma emit_rebuffer: "emit cb arg ev (rebuffer d b st) = rebuffer d b (emit cb arg ev st)"
  by (simp add: emit_def rebuffer_def split: option.splits)

lemma emit_model_rebuffer:
  "emit_model cbs v (rebuffer d b st) = rebuffer d b (emit_model cbs v st)"
  by (simp add: emit_model_def split: option.splits)
     (simp add: emit_def rebuffer_def split: option.splits)

lemma text_delta_rebuffer:
  "text_delta cbs p (rebuffer d b st) = rebuffer d b (text_delta cbs p st)"
  by (simp add: text_delta_def Let_def split: option.splits)
     (simp add: emit_def rebuffer_def split: option.splits)

lemma reasoning_delta_rebuffer:
  "reasoning_delta cbs p (rebuffer d b st) = rebuffer d b (reasoning_delta cbs p st)"
  by (simp add: reasoning_delta_def Let_def split: option.splits)
     (simp add: emit_def rebuffer_def split: option.splits)

lemma tool_delta_rebuffer:
  "tool_delta cbs p (rebuffer d b st) = rebuffer d b (tool_delta cbs p st)"
  by (simp add: tool_delta_def Let_def emit_rebuffer split: option.splits)

lemma completed_rebuffer:
  "completed cbs p (rebuffer d b st) = rebuffer d b (completed cbs p st)"
proof -
  have a: "\<And>t. (rebuffer d b st)\<lparr> lastTimings := t \<rparr> = rebuffer d b (st\<lparr> lastTimings := t \<rparr>)"
    and c: "\<And>n. (rebuffer d b st)\<lparr> console_errors := n \<rparr> = rebuffer d b (st\<lparr> console_errors := n \<rparr>)"
    and e: "console_errors (rebuffer d b st) = console_errors st"
    by (simp_all add: rebuffer_def)
  show ?thesis
    by (simp add: completed_def Let_def a c e emit_rebuffer emit_model_rebuffer
             split: option.splits sum.splits)
qed

lemma dispatch_rebuffer:
  "dispatch cbs p (rebuffer d b st) = rebuffer d b (dispatch cbs p st)"
  by (simp add: dispatch_def Let_def emit_model_rebuffer text_delta_rebuffer
        reasoning_delta_rebuffer tool_delta_rebuffer completed_rebuffer)

lemma process_line_rebuffer:
  "process_line parse cbs l (rebuffer d b st) = rebuffer d b (process_line parse cbs l st)"
proof -
  have c: "\<And>n. (rebuffer d b st)\<lparr> console_errors := n \<rparr> = rebuffer d b (st\<lparr> console_errors := n \<rparr>)"
    and e: "console_errors (rebuffer d b st) = console_errors st"
    by (simp_all add: rebuffer_def)
  show ?thesis
    by (simp add: process_line_def Let_def c e dispatch_rebuffer split: option.splits)
qed

lemma process_lines_rebuffer:
  "process_lines parse cbs ls (rebuffer d b st) = rebuffer d b (process_lines parse cbs ls st)"
  by (induction ls arbitrary: st) (simp_all add: process_line_rebuffer)

lemma process_lines_aborted: "aborted st \<Longrightarrow> process_lines parse cbs ls st = st"
  by (cases ls) simp_all

lemma process_lines_append:
  "process_lines parse cbs (xs @ ys) st = process_lines parse cbs ys (process_lines parse cbs xs st)"
  by (induction xs arbitrary: st) (simp_all add: process_lines_aborted)

lemma split_nl_not_Nil [simp]: "split_nl s \<noteq> []"
  by (induction s) (auto split: list.splits)

lemma split_nl_append:
  "split_nl (xs @ ys) = butlast (split_nl xs) @ split_nl (last (split_nl xs) @ ys)"
proof (induction xs)
  case Nil
  show ?case by simp
next
  case (Cons c cs)
  show ?case
  proof (cases "split_nl cs")
    case Nil
    then show ?thesis by simp
  next
    case (Cons l ls)
    show ?thesis
    proof (cases ls)
      case Nil
      with Cons Cons.IH show ?thesis by simp
    next
      case (Cons l' ls')
      with \<open>split_nl cs = l # ls\<close> Cons.IH show ?thesis by simp
    qed
  qed
qed

lemma feed_rebuffer_form:
  "feed decode parse cbs v st =
     (case decode (decoder st) v of
        (text, d') \<Rightarrow>
          rebuffer d' (last (split_nl (buffer st @ text)))
            (process_lines parse cbs (butlast (split_nl (buffer st @ text))) st))"
  by (simp add: feed_def Let_def process_lines_rebuffer [unfolded rebuffer_def] rebuffer_def
           split: prod.splits)

lemma feed_append:
  assumes "stream_decoder decode"
  shows "feed decode parse cbs (a @ b) st = feed decode parse cbs b (feed decode parse cbs a st)"
proof -
  obtain s1 d1 where 1: "decode (decoder st) a = (s1, d1)" by (cases "decode (decoder st) a")
  obtain s2 d2 where 2: "decode d1 b = (s2, d2)" by (cases "decode d1 b")
  have 3: "decode (decoder st) (a @ b) = (s1 @ s2, d2)"
    using assms 1 2 by (simp add: stream_decoder_def)
  let ?l1 = "split_nl (buffer st @ s1)"
  let ?l2 = "split_nl (last ?l1 @ s2)"
  have sp: "split_nl (buffer st @ s1 @ s2) = butlast ?l1 @ ?l2"
    using split_nl_append [of "buffer st @ s1" s2] by simp
  have bl: "butlast (butlast ?l1 @ ?l2) = butlast ?l1 @ butlast ?l2"
    by (simp add: butlast_append)
  have la: "last (butlast ?l1 @ ?l2) = last ?l2"
    by simp
  show ?thesis
    by (simp add: feed_rebuffer_form 1 2 3 sp bl la process_lines_append process_lines_rebuffer)
qed

lemma feed_aborted:
  "aborted st \<Longrightarrow> \<exists>d b. feed decode parse cbs v st = rebuffer d b st"
  by (auto simp: feed_rebuffer_form process_lines_aborted split: prod.splits)

lemma world_of_rebuffer [simp]: "world_of (rebuffer d b st) = world_of st"
  by (simp add: world_of_def rebuffer_def)

lemma after_loop_rebuffer: "after_loop cbs (rebuffer d b st, r) = after_loop cbs (st, r)"
proof -
  have f: "aggregatedContent (rebuffer d b st) = aggregatedContent st"
    "fullReasoningContent (rebuffer d b st) = fullReasoningContent st"
    "lastTimings (rebuffer d b st) = lastTimings st"
    by (simp_all add: rebuffer_def)
  show ?thesis
    by (simp add: after_loop_def Let_def emit_rebuffer f split: option.splits)
qed

lemma stream_loop_single:
  "\<not> aborted st \<Longrightarrow>
     after_loop cbs (stream_loop decode parse cbs (chunked [c]) st)
       = after_loop cbs (feed decode parse cbs c st, None)"
proof -
  assume "\<not> aborted st"
  then have e: "st\<lparr> aborted := False \<rparr> = st" by simp
  show ?thesis using \<open>\<not> aborted st\<close> by (simp add: chunked_def Let_def e)
qed

lemma stream_loop_chunks:
  assumes "stream_decoder decode" "\<not> aborted st"
  shows "after_loop cbs (stream_loop decode parse cbs (chunked (c # cs)) st)
           = after_loop cbs (feed decode parse cbs (c @ concat cs) st, None)"
  using assms(2)
proof (induction cs arbitrary: c st)
  case Nil
  then show ?case using stream_loop_single [of st cbs decode parse c] by simp
next
  case (Cons c' cs)
  let ?s2 = "feed decode parse cbs c st"
  have st: "st\<lparr> aborted := False \<rparr> = st" using Cons.prems by simp
  have unf: "stream_loop decode parse cbs (chunked (c # c' # cs)) st
               = (if aborted ?s2 then (?s2, None)
                  else stream_loop decode parse cbs (chunked (c' # cs)) ?s2)"
    using Cons.prems by (simp add: chunked_def Let_def st)
  have app: "feed decode parse cbs (c @ c' @ concat cs) st
               = feed decode parse cbs (c' @ concat cs) ?s2"
    using feed_append [OF assms(1)] by simp
  show ?case
  proof (cases "aborted ?s2")
    case True
    obtain d b where e: "feed decode parse cbs (c' @ concat cs) ?s2 = rebuffer d b ?s2"
      using feed_aborted [OF True] by blast
    show ?thesis
      by (simp add: unf True app e after_loop_rebuffer)
  next
    case False
    then show ?thesis
      using Cons.IH [of ?s2 c'] by (simp add: unf app)
  qed
qed


subsection \<open>Chunk boundaries\<close>

lemma feed_empty:
  assumes "stream_decoder decode" "buffer st = []"
  shows "feed decode parse cbs [] st = st"
proof -
  have "decode (decoder st) [] = ([], decoder st)"
    using assms(1) by (simp add: stream_decoder_def)
  then show ?thesis
    using assms(2) by (simp add: feed_def)
qed

lemma handle_chunks_feed:
  assumes "stream_decoder decode" "\<not> aborted w" "body resp = Some (chunked cs)"
  shows "handleStreamResponse decode d parse cbs resp w
           = after_loop cbs (feed decode parse cbs (concat cs) (initial_state d w), None)"
proof (cases cs)
  case Nil
  have "feed decode parse cbs [] (initial_state d w) = initial_state d w"
    by (rule feed_empty [OF assms(1)]) (simp add: initial_state_def)
  then show ?thesis
    using assms(3) Nil by (simp add: handleStreamResponse_def chunked_def)
next
  case (Cons c cs')
  have "\<not> aborted (initial_state d w)"
    using assms(2) by (simp add: initial_state_def)
  from stream_loop_chunks [OF assms(1) this, of cbs parse c cs']
  show ?thesis
    using assms(3) Cons by (simp add: handleStreamResponse_def)
qed

lemma handle_aborted:
  assumes "aborted w" "body resp = Some reads"
  shows "handleStreamResponse decode d parse cbs resp w = (w, None)"
proof -
  have a: "aborted (initial_state d w)" using assms(1) by (simp add: initial_state_def)
  then have "stream_loop decode parse cbs reads (initial_state d w) = (initial_state d w, None)"
    by (cases reads) auto
  moreover have "world_of (initial_state d w) = w"
    by (simp add: world_of_def initial_state_def)
  ultimately show ?thesis
    using assms(2) a by (simp add: handleStreamResponse_def after_loop_def)
qed

text \<open>
  Claim C1. With a decoder that honours the streaming contract, \<^verbatim>\<open>handleStreamResponse\<close>
  gives the same callbacks (so the same text to the completion callback) and the same
  outcome when a body arrives in any sequence of reads as when it arrives in one read.
  And the outcome is that of processing the segments of the decoded body that end in a
  newline, in order: what follows the last newline stays in the buffer and is not parsed.
\<close>

theorem chunk_boundary_invariance:
  assumes "stream_decoder decode"
  shows "handleStreamResponse decode d parse cbs (resp\<lparr> body := Some (chunked cs) \<rparr>) w
           = handleStreamResponse decode d parse cbs (resp\<lparr> body := Some (chunked [concat cs]) \<rparr>) w
         \<and> (\<not> aborted w \<longrightarrow>
              handleStreamResponse decode d parse cbs (resp\<lparr> body := Some (chunked cs) \<rparr>) w
                = (case decode d (concat cs) of
                     (text, d') \<Rightarrow>
                       after_loop cbs
                         (process_lines parse cbs (butlast (split_nl text))
                            ((initial_state d w)\<lparr> decoder := d', buffer := last (split_nl text) \<rparr>),
                          None)))"
proof (cases "aborted w")
  case True
  then show ?thesis by (simp add: handle_aborted)
next
  case False
  have 1: "handleStreamResponse decode d parse cbs (resp\<lparr> body := Some (chunked cs) \<rparr>) w
           = after_loop cbs (feed decode parse cbs (concat cs) (initial_state d w), None)"
    by (rule handle_chunks_feed [OF assms False]) simp
  have 2: "handleStreamResponse decode d parse cbs (resp\<lparr> body := Some (chunked [concat cs]) \<rparr>) w
           = after_loop cbs (feed decode parse cbs (concat [concat cs]) (initial_state d w), None)"
    by (rule handle_chunks_feed [OF assms False]) simp
  have 3: "feed decode parse cbs (concat cs) (initial_state d w)
             = (case decode d (concat cs) of
                  (text, d') \<Rightarrow>
                    process_lines parse cbs (butlast (split_nl text))
                      ((initial_state d w)\<lparr> decoder := d', buffer := last (split_nl text) \<rparr>))"
    by (simp add: feed_def Let_def initial_state_def split: prod.splits)
  show ?thesis
    using False by (simp add: 1 2 3 split: prod.splits)
qed

theorem chunk_boundary_invariance_witness:
  "stream_decoder byte_decoder \<and> \<not> aborted fresh \<and>
   handleStreamResponse byte_decoder () sample_parser recording (stream_of (chunked split_stream)) fresh
     = handleStreamResponse byte_decoder () sample_parser recording
         (stream_of (chunked [concat split_stream])) fresh \<and>
   handleStreamResponse byte_decoder () sample_parser recording (stream_of (chunked split_stream)) fresh
     = (\<lparr> calls = [OnModel (JStr ''m1''), OnChunk (JStr ''Hel''), OnChunk (JStr ''lo''),
                   OnComplete ''Hello'' None None],
          aborted = False \<rparr>, None)"
proof -
  have d: "stream_decoder byte_decoder" by (rule stream_decoder_byte_decoder)
  have f: "\<not> aborted fresh" by (simp add: fresh_def)
  have e: "handleStreamResponse byte_decoder () sample_parser recording
             (stream_of (chunked split_stream)) fresh
     = (\<lparr> calls = [OnModel (JStr ''m1''), OnChunk (JStr ''Hel''), OnChunk (JStr ''lo''),
                   OnComplete ''Hello'' None None],
          aborted = False \<rparr>, None)"
    by code_simp
  have s: "\<And>r. (stream_of [])\<lparr> body := Some r \<rparr> = stream_of r"
    by (simp add: stream_of_def)
  show ?thesis
    using d f e
      chunk_boundary_invariance [OF d, where d = "()" and parse = sample_parser and cbs = recording
        and resp = "stream_of []" and cs = split_stream and w = fresh]
    by (simp add: s)
qed


subsection \<open>A malformed event\<close>

lemma data_line_facts [simp]:
  "starts_with (data_line p) ''data: ''"
  "\<not> starts_with (data_line p) ''event: ''"
  "drop 6 (data_line p) = p"
  by (simp_all add: starts_with_def data_line_def)












subsection \<open>Cancellation\<close>

lemma stream_loop_aborted:
  "aborted st \<Longrightarrow> stream_loop decode parse cbs reads st = (st, None)"
  by (cases reads) auto

lemma send_catch_abort:
  "send_catch cbs (ErrorObj ''AbortError'' m) w = (w, Inr None)"
  by (simp add: send_catch_def)

text \<open>
  Claim C5 says that once the signal is set no further callback fires and no error is
  raised. Two runs where that fails: a read that rejects while the signal is set is passed
  to the error callback and thrown again; and when the timings callback of a
  \<^verbatim>\<open>response.completed\<close> event sets the signal, the model callback of the same event
  still fires.
\<close>

theorem cancellation_counterexample:
  "handleStreamResponse byte_decoder () sample_parser recording
     (stream_of [(True, Rejected abort_error)]) fresh
     = (\<lparr> calls = [OnError abort_error], aborted = True \<rparr>, Some abort_error) \<and>
   handleStreamResponse byte_decoder () sample_parser timings_cancels
     (stream_of (chunked [bytes_of (data_line completed_event @ newline)])) fresh
     = (\<lparr> calls = [OnTimings \<lparr> prompt_n = JNum 3, predicted_n = JNum 0, cache_n = JNum 0 \<rparr>,
                   OnModel (JStr ''m2'')],
          aborted = True \<rparr>, None)"
proof
  show "handleStreamResponse byte_decoder () sample_parser recording
     (stream_of [(True, Rejected abort_error)]) fresh
     = (\<lparr> calls = [OnError abort_error], aborted = True \<rparr>, Some abort_error)"
    by (simp add: handleStreamResponse_def stream_of_def initial_state_def fresh_def after_loop_def
          as_error_def abort_error_def emit_def recording_def world_of_def Let_def)
  show "handleStreamResponse byte_decoder () sample_parser timings_cancels
     (stream_of (chunked [bytes_of (data_line completed_event @ newline)])) fresh
     = (\<lparr> calls = [OnTimings \<lparr> prompt_n = JNum 3, predicted_n = JNum 0, cache_n = JNum 0 \<rparr>,
                   OnModel (JStr ''m2'')],
          aborted = True \<rparr>, None)"
    by code_simp
qed

text \<open>
  Claim C5, as amended. When the signal is set before \<^verbatim>\<open>handleStreamResponse\<close> starts
  on a response with a body, no callback is invoked and the call returns normally. In a
  state where the signal is set, the loop over the lines and the read loop stop at their
  first check without a callback, and after the loop the call returns normally without
  the completion callback; a read that resolves while the signal is set ends the loop the
  same way. \<^verbatim>\<open>sendMessage\<close> resolves to \<^verbatim>\<open>undefined\<close> with no callback when
  \<^verbatim>\<open>fetch\<close> rejects with an \<^verbatim>\<open>AbortError\<close>, and when the signal is set before a
  streamed body is read.
\<close>

theorem cancellation_is_silent:
  "(aborted w \<and> body resp = Some reads \<longrightarrow>
      handleStreamResponse decode d parse cbs resp w = (w, None)) \<and>
   (aborted st \<longrightarrow>
      process_lines parse cbs lines st = st \<and>
      stream_loop decode parse cbs reads st = (st, None) \<and>
      after_loop cbs (st, None) = (world_of st, None)) \<and>
   (\<not> aborted st \<and> (r = Done \<or> r = Value v) \<longrightarrow>
      stream_loop decode parse cbs ((True, r) # reads) st = (st\<lparr> aborted := True \<rparr>, None)) \<and>
   (fetch (wire_body (request_body parse opts (convertMessagesToInput messages)))
      = Inl (ErrorObj ''AbortError'' m) \<longrightarrow>
      sendMessage decode d parse fetch messages opts w = (w, Inr None)) \<and>
   (fetch (wire_body (request_body parse opts (convertMessagesToInput messages))) = Inr resp \<and>
    ok resp \<and> stream opts = Some True \<and> body resp = Some reads \<and> aborted w \<longrightarrow>
      sendMessage decode d parse fetch messages opts w = (w, Inr None))"
proof (intro conjI impI)
  assume "aborted w \<and> body resp = Some reads"
  then show "handleStreamResponse decode d parse cbs resp w = (w, None)"
    by (simp add: handle_aborted)
next
  assume "aborted st"
  then show "process_lines parse cbs lines st = st"
    by (rule process_lines_aborted)
next
  assume "aborted st"
  then show "stream_loop decode parse cbs reads st = (st, None)"
    by (rule stream_loop_aborted)
next
  assume "aborted st"
  then show "after_loop cbs (st, None) = (world_of st, None)"
    by (simp add: after_loop_def)
next
  assume "\<not> aborted st \<and> (r = Done \<or> r = Value v)"
  then show "stream_loop decode parse cbs ((True, r) # reads) st = (st\<lparr> aborted := True \<rparr>, None)"
    by auto
next
  assume "fetch (wire_body (request_body parse opts (convertMessagesToInput messages)))
            = Inl (ErrorObj ''AbortError'' m)"
  then show "sendMessage decode d parse fetch messages opts w = (w, Inr None)"
    by (simp add: sendMessage_def Let_def send_catch_abort)
next
  assume a: "fetch (wire_body (request_body parse opts (convertMessagesToInput messages))) = Inr resp \<and>
    ok resp \<and> stream opts = Some True \<and> body resp = Some reads \<and> aborted w"
  then have "handleStreamResponse decode d parse (callbacks opts) resp w = (w, None)"
    by (simp add: handle_aborted)
  with a show "sendMessage decode d parse fetch messages opts w = (w, Inr None)"
    by (simp add: sendMessage_def Let_def)
qed

theorem cancellation_is_silent_witness:
  "aborted cancelled \<and> body (stream_of (chunked sandwich)) = Some (chunked sandwich) \<and>
   handleStreamResponse byte_decoder () sample_parser recording (stream_of (chunked sandwich)) cancelled
     = (cancelled, None) \<and>
   aborted ((initial_state () fresh)\<lparr> aborted := True \<rparr>) \<and>
   process_lines sample_parser recording [data_line hel_event]
       ((initial_state () fresh)\<lparr> aborted := True \<rparr>)
     = (initial_state () fresh)\<lparr> aborted := True \<rparr> \<and>
   \<not> aborted (initial_state () fresh) \<and>
   stream_loop byte_decoder sample_parser recording ((True, Value (concat sandwich)) # chunked sandwich)
       (initial_state () fresh)
     = ((initial_state () fresh)\<lparr> aborted := True \<rparr>, None) \<and>
   sendMessage byte_decoder () sample_parser (\<lambda>b. Inl abort_error) [] streaming fresh
     = (fresh, Inr None) \<and>
   sendMessage byte_decoder () sample_parser (\<lambda>b. Inr (stream_of (chunked sandwich))) [] streaming
       cancelled
     = (cancelled, Inr None)"
proof -
  let ?st = "(initial_state () fresh)\<lparr> aborted := True \<rparr>"
  note t = cancellation_is_silent [where w = cancelled and resp = "stream_of (chunked sandwich)"
      and reads = "chunked sandwich" and decode = byte_decoder and d = "()" and parse = sample_parser
      and cbs = recording and st = ?st and lines = "[data_line hel_event]"
      and fetch = "\<lambda>b. Inr (stream_of (chunked sandwich))" and opts = streaming and messages = "[]"]
  note u = cancellation_is_silent [where w = fresh and decode = byte_decoder and d = "()"
      and parse = sample_parser and cbs = recording and st = "initial_state () fresh"
      and r = "Value (concat sandwich)" and v = "concat sandwich" and reads = "chunked sandwich"
      and fetch = "\<lambda>b. Inl abort_error" and opts = streaming and messages = "[]"
      and m = "''The operation was aborted.''"]
  have a: "aborted cancelled" by (simp add: cancelled_def)
  have b: "body (stream_of (chunked sandwich)) = Some (chunked sandwich)" by (simp add: stream_of_def)
  have c: "aborted ?st" by simp
  have n: "\<not> aborted (initial_state () fresh)" by (simp add: initial_state_def fresh_def)
  have k: "ok (stream_of (chunked sandwich))" by (simp add: stream_of_def)
  have s: "stream streaming = Some True" by (simp add: streaming_def)
  show ?thesis
    using t u a b c n k s by (simp add: abort_error_def)
qed


subsection \<open>A response without assistant text\<close>





















subsection \<open>Error responses\<close>

text \<open>
  Claim C7 says that the name \<^verbatim>\<open>ServerError\<close> marks every status of the client-error
  class and that the message is the value of \<^verbatim>\<open>error.message\<close>. Status 404 with an
  error message gives \<^verbatim>\<open>HttpError\<close>, and an empty \<^verbatim>\<open>error.message\<close> gives the
  message "Unknown server error".
\<close>

theorem parseErrorResponse_counterexample:
  "400 \<le> status (error_reply 404 ''Not Found'' error_body) \<and>
   status (error_reply 404 ''Not Found'' error_body) < 500 \<and>
   parseErrorResponse sample_parser (error_reply 404 ''Not Found'' error_body)
     = ErrorObj ''HttpError'' ''no such model'' \<and>
   parseErrorResponse sample_parser (error_reply 400 ''Bad Request'' empty_error_body)
     = ErrorObj ''ServerError'' ''Unknown server error''"
  by code_simp

text \<open>
  Claim C7, as amended. When the body parses as JSON whose \<^verbatim>\<open>error.message\<close> is a
  non-empty string, \<^verbatim>\<open>parseErrorResponse\<close> returns an error with that message; when
  it parses to a value other than \<^verbatim>\<open>null\<close> whose \<^verbatim>\<open>error.message\<close> is missing or
  falsy (the empty string among them), the message is "Unknown server error". In both
  cases the error is named \<^verbatim>\<open>ServerError\<close> when the status is 400 and
  \<^verbatim>\<open>HttpError\<close> for every other status. When the body is not JSON, parses to
  \<^verbatim>\<open>null\<close>, or cannot be read, the result is the \<^verbatim>\<open>HttpError\<close> with the message
  "Server error (status): status text".
\<close>

theorem parseErrorResponse_classifies:
  "(text_result r = Inr errorText \<and> parse errorText = Some errorData \<and>
    prop_chain (get_prop errorData ''error'') ''message'' = Some (JStr msg) \<and> msg \<noteq> [] \<longrightarrow>
      parseErrorResponse parse r
        = ErrorObj (if status r = 400 then ''ServerError'' else ''HttpError'') msg) \<and>
   (text_result r = Inr errorText \<and> parse errorText = Some errorData \<and> errorData \<noteq> JNull \<and>
    if_truthy (prop_chain (get_prop errorData ''error'') ''message'') = None \<longrightarrow>
      parseErrorResponse parse r
        = ErrorObj (if status r = 400 then ''ServerError'' else ''HttpError'')
            ''Unknown server error'') \<and>
   (text_result r = Inr errorText \<and> parse errorText = None \<longrightarrow>
      parseErrorResponse parse r
        = ErrorObj ''HttpError'' (''Server error ('' @ show_nat (status r) @ ''): '' @ statusText r)) \<and>
   (text_result r = Inr errorText \<and> parse errorText = Some JNull \<longrightarrow>
      parseErrorResponse parse r
        = ErrorObj ''HttpError'' (''Server error ('' @ show_nat (status r) @ ''): '' @ statusText r)) \<and>
   (text_result r = Inl e \<longrightarrow>
      parseErrorResponse parse r
        = ErrorObj ''HttpError'' (''Server error ('' @ show_nat (status r) @ ''): '' @ statusText r))"
proof (intro conjI impI)
  assume a: "text_result r = Inr errorText \<and> parse errorText = Some errorData \<and>
    prop_chain (get_prop errorData ''error'') ''message'' = Some (JStr msg) \<and> msg \<noteq> []"
  then have "errorData \<noteq> JNull"
    by (auto simp: prop_chain_def)
  with a show "parseErrorResponse parse r
        = ErrorObj (if status r = 400 then ''ServerError'' else ''HttpError'') msg"
    by (simp add: parseErrorResponse_def if_truthy_def)
next
  assume "text_result r = Inr errorText \<and> parse errorText = Some errorData \<and> errorData \<noteq> JNull \<and>
    if_truthy (prop_chain (get_prop errorData ''error'') ''message'') = None"
  then show "parseErrorResponse parse r
        = ErrorObj (if status r = 400 then ''ServerError'' else ''HttpError'')
            ''Unknown server error''"
    by (simp add: parseErrorResponse_def)
next
  assume "text_result r = Inr errorText \<and> parse errorText = None"
  then show "parseErrorResponse parse r
        = ErrorObj ''HttpError'' (''Server error ('' @ show_nat (status r) @ ''): '' @ statusText r)"
    by (simp add: parseErrorResponse_def fallback_error_def)
next
  assume "text_result r = Inr errorText \<and> parse errorText = Some JNull"
  then show "parseErrorResponse parse r
        = ErrorObj ''HttpError'' (''Server error ('' @ show_nat (status r) @ ''): '' @ statusText r)"
    by (simp add: parseErrorResponse_def fallback_error_def)
next
  assume "text_result r = Inl e"
  then show "parseErrorResponse parse r
        = ErrorObj ''HttpError'' (''Server error ('' @ show_nat (status r) @ ''): '' @ statusText r)"
    by (simp add: parseErrorResponse_def fallback_error_def)
qed

theorem parseErrorResponse_classifies_witness:
  "text_result (error_reply 400 ''Bad Request'' error_body) = Inr error_body \<and>
   sample_parser error_body = Some (JObj [(''error'', JObj [(''message'', JStr ''no such model'')])]) \<and>
   prop_chain (get_prop (JObj [(''error'', JObj [(''message'', JStr ''no such model'')])]) ''error'')
     ''message'' = Some (JStr ''no such model'') \<and>
   parseErrorResponse sample_parser (error_reply 400 ''Bad Request'' error_body)
     = ErrorObj ''ServerError'' ''no such model'' \<and>
   sample_parser empty_error_body = Some (JObj [(''error'', JObj [(''message'', JStr [])])]) \<and>
   if_truthy (prop_chain (get_prop (JObj [(''error'', JObj [(''message'', JStr [])])]) ''error'')
     ''message'') = None \<and>
   parseErrorResponse sample_parser (error_reply 500 ''Internal Server Error'' empty_error_body)
     = ErrorObj ''HttpError'' ''Unknown server error'' \<and>
   text_result (error_reply 502 ''Bad Gateway'' ''<html>'') = Inr ''<html>'' \<and>
   sample_parser ''<html>'' = None \<and>
   parseErrorResponse sample_parser (error_reply 502 ''Bad Gateway'' ''<html>'')
     = ErrorObj ''HttpError'' ''Server error (502): Bad Gateway'' \<and>
   reply_parser null_body = Some JNull \<and>
   parseErrorResponse reply_parser (error_reply 502 ''Bad Gateway'' null_body)
     = ErrorObj ''HttpError'' ''Server error (502): Bad Gateway'' \<and>
   text_result unread_reply = Inl NonError \<and>
   parseErrorResponse sample_parser unread_reply
     = ErrorObj ''HttpError'' ''Server error (503): Service Unavailable''"
proof -
  let ?d = "JObj [(''error'', JObj [(''message'', JStr ''no such model'')])]"
  let ?z = "JObj [(''error'', JObj [(''message'', JStr [])])]"
  have t: "\<And>c s x. text_result (error_reply c s x) = Inr x"
    and sc: "\<And>c s x. status (error_reply c s x) = c"
    and ss: "\<And>c s x. statusText (error_reply c s x) = s"
    by (simp_all add: error_reply_def)
  have u: "text_result unread_reply = Inl NonError" "status unread_reply = 503"
    "statusText unread_reply = ''Service Unavailable''"
    by (simp_all add: unread_reply_def)
  have p1: "sample_parser error_body = Some ?d" by code_simp
  have pz: "sample_parser empty_error_body = Some ?z" by code_simp
  have p2: "sample_parser ''<html>'' = None" by code_simp
  have pn: "reply_parser null_body = Some JNull" by code_simp
  have m: "prop_chain (get_prop ?d ''error'') ''message'' = Some (JStr ''no such model'')"
    by (simp add: prop_chain_def)
  have z: "if_truthy (prop_chain (get_prop ?z ''error'') ''message'') = None"
    by (simp add: prop_chain_def if_truthy_def)
  have n: "show_nat 502 = ''502''" "show_nat 503 = ''503''" by code_simp+
  note a = parseErrorResponse_classifies [where r = "error_reply 400 ''Bad Request'' error_body"
      and parse = sample_parser and errorText = error_body and errorData = ?d
      and msg = "''no such model''" and e = NonError]
  note b = parseErrorResponse_classifies [where r = "error_reply 500 ''Internal Server Error'' empty_error_body"
      and parse = sample_parser and errorText = empty_error_body and errorData = ?z
      and msg = "[]" and e = NonError]
  note c = parseErrorResponse_classifies [where r = "error_reply 502 ''Bad Gateway'' ''<html>''"
      and parse = sample_parser and errorText = "''<html>''" and errorData = JNull
      and msg = "[]" and e = NonError]
  note dd = parseErrorResponse_classifies [where r = "error_reply 502 ''Bad Gateway'' null_body"
      and parse = reply_parser and errorText = null_body and errorData = JNull
      and msg = "[]" and e = NonError]
  note ee = parseErrorResponse_classifies [where r = unread_reply
      and parse = sample_parser and errorText = "[]" and errorData = JNull
      and msg = "[]" and e = NonError]
  have 1: "parseErrorResponse sample_parser (error_reply 400 ''Bad Request'' error_body)
     = ErrorObj ''ServerError'' ''no such model''"
    using a p1 m by (simp add: t sc)
  have 2: "parseErrorResponse sample_parser (error_reply 500 ''Internal Server Error'' empty_error_body)
     = ErrorObj ''HttpError'' ''Unknown server error''"
    using b pz z by (simp add: t sc)
  have 3: "parseErrorResponse sample_parser (error_reply 502 ''Bad Gateway'' ''<html>'')
     = ErrorObj ''HttpError'' ''Server error (502): Bad Gateway''"
    using c p2 by (simp add: t sc ss n)
  have 4: "parseErrorResponse reply_parser (error_reply 502 ''Bad Gateway'' null_body)
     = ErrorObj ''HttpError'' ''Server error (502): Bad Gateway''"
    using dd pn by (simp add: t sc ss n)
  have 5: "parseErrorResponse sample_parser unread_reply
     = ErrorObj ''HttpError'' ''Server error (503): Service Unavailable''"
    using ee u by (simp add: n)
  show ?thesis
    using t p1 pz p2 pn m z u(1) 1 2 3 4 5 by simp
qed


subsection \<open>The token limit in the request body\<close>

lemma map_of_assign:
  "k \<notin> fst ` set props \<Longrightarrow> map_of (assign target props) k = map_of target k"
proof (induction props arbitrary: target)
  case Nil
  show ?case by (simp add: assign_def)
next
  case (Cons p ps)
  obtain k' v where p: "p = (k', v)" by (cases p)
  have "assign target (p # ps) = assign (AList.update k' (Plain v) target) ps"
    by (simp add: assign_def p)
  then show ?case
    using Cons p by (simp add: update_conv')
qed

lemma distinct_assign:
  "distinct (map fst target) \<Longrightarrow> distinct (map fst (assign target props))"
proof (induction props arbitrary: target)
  case Nil
  then show ?case by (simp add: assign_def)
next
  case (Cons p ps)
  obtain k' v where p: "p = (k', v)" by (cases p)
  have "assign target (p # ps) = assign (AList.update k' (Plain v) target) ps"
    by (simp add: assign_def p)
  then show ?case
    using Cons p by (simp add: distinct_update)
qed

lemma map_of_wire_body:
  "distinct (map fst b) \<Longrightarrow>
     map_of (wire_body b) k = (case map_of b k of Some Undefined \<Rightarrow> None | x \<Rightarrow> x)"
proof (induction b)
  case Nil
  show ?case by (simp add: wire_body_def)
next
  case (Cons p b)
  obtain k' v where p: "p = (k', v)" by (cases p)
  have ih: "map_of (wire_body b) k = (case map_of b k of Some Undefined \<Rightarrow> None | x \<Rightarrow> x)"
    using Cons by simp
  have nk: "map_of b k' = None"
    using Cons.prems p by (simp add: map_of_eq_None_iff)
  show ?case
  proof (cases "k = k'")
    case True
    show ?thesis
      using ih nk True p
      by (cases v) (simp_all add: wire_body_def split: option.splits body_value.splits)
  next
    case False
    show ?thesis
      using ih False p by (simp add: wire_body_def)
  qed
qed

lemma request_body_base:
  "request_body parse opts input
     = assign (base_body parse opts input) (custom_props parse (custom opts))"
  by (simp add: request_body_def base_body_def Let_def custom_props_def assign_def)

lemma base_body_distinct: "distinct (map fst (base_body parse opts input))"
  by (simp add: base_body_def request_body_def Let_def custom_props_def assign_def set_if_def
        distinct_update split: option.splits)

lemma base_body_limit:
  "map_of (base_body parse opts input) ''max_output_tokens''
     = (case max_tokens opts of
          None \<Rightarrow> None
        | Some n \<Rightarrow> Some (if n \<noteq> JNull \<and> n \<noteq> JNum 0 then Plain n else Undefined))"
  by (simp add: base_body_def request_body_def Let_def custom_props_def assign_def set_if_def
        update_conv' split: option.splits)

text \<open>
  Claim C9 says that the body carries \<^verbatim>\<open>max_output_tokens\<close> only for a limit that is
  not zero. The custom parameters are merged into the body last: with a limit of 0 and
  custom parameters that set \<^verbatim>\<open>max_output_tokens\<close>, the field is sent.
\<close>

theorem max_output_tokens_counterexample:
  "max_tokens overriding = Some (JNum 0) \<and>
   map_of (wire_body (request_body sample_parser overriding [])) ''max_output_tokens''
     = Some (Plain (JNum 99))"
  by code_simp

text \<open>
  Claim C9, as amended. When the custom parameters add no \<^verbatim>\<open>max_output_tokens\<close>, the
  body that \<^verbatim>\<open>sendMessage\<close> hands to \<^verbatim>\<open>fetch\<close> has the field
  \<^verbatim>\<open>max_output_tokens\<close> exactly when \<^verbatim>\<open>max_tokens\<close> is given and is neither
  \<^verbatim>\<open>null\<close> nor 0, and then with that value; \<^verbatim>\<open>sendMessage\<close> asks \<^verbatim>\<open>fetch\<close>
  for that body only.
\<close>

theorem max_output_tokens_field:
  assumes "''max_output_tokens'' \<notin> fst ` set (custom_props parse (custom opts))"
  shows "map_of (wire_body (request_body parse opts (convertMessagesToInput messages)))
           ''max_output_tokens''
         = (case max_tokens opts of
              None \<Rightarrow> None
            | Some n \<Rightarrow> if n \<noteq> JNull \<and> n \<noteq> JNum 0 then Some (Plain n) else None)
         \<and> sendMessage decode d parse fetch messages opts w
             = sendMessage decode d parse
                 (\<lambda>b. fetch (wire_body (request_body parse opts (convertMessagesToInput messages))))
                 messages opts w"
proof
  let ?input = "convertMessagesToInput messages"
  have dist: "distinct (map fst (request_body parse opts ?input))"
    by (simp add: request_body_base distinct_assign base_body_distinct)
  have "map_of (request_body parse opts ?input) ''max_output_tokens''
          = map_of (base_body parse opts ?input) ''max_output_tokens''"
    by (simp add: request_body_base map_of_assign [OF assms])
  then show "map_of (wire_body (request_body parse opts ?input)) ''max_output_tokens''
         = (case max_tokens opts of
              None \<Rightarrow> None
            | Some n \<Rightarrow> if n \<noteq> JNull \<and> n \<noteq> JNum 0 then Some (Plain n) else None)"
    by (simp add: map_of_wire_body [OF dist] base_body_limit split: option.splits)
next
  show "sendMessage decode d parse fetch messages opts w
          = sendMessage decode d parse
              (\<lambda>b. fetch (wire_body (request_body parse opts (convertMessagesToInput messages))))
              messages opts w"
    by (simp add: sendMessage_def Let_def)
qed

theorem max_output_tokens_field_witness:
  "''max_output_tokens'' \<notin> fst ` set (custom_props sample_parser (custom limited)) \<and>
   map_of (wire_body (request_body sample_parser limited (convertMessagesToInput [])))
     ''max_output_tokens'' = Some (Plain (JNum 256)) \<and>
   ''max_output_tokens'' \<notin> fst ` set (custom_props sample_parser (custom (plain\<lparr> max_tokens := Some (JNum 0) \<rparr>))) \<and>
   map_of (wire_body (request_body sample_parser (plain\<lparr> max_tokens := Some (JNum 0) \<rparr>)
                        (convertMessagesToInput [])))
     ''max_output_tokens'' = None"
proof -
  have c1: "''max_output_tokens'' \<notin> fst ` set (custom_props sample_parser (custom limited))"
    by (simp add: limited_def plain_def custom_props_def)
  have c2: "''max_output_tokens'' \<notin> fst ` set (custom_props sample_parser
              (custom (plain\<lparr> max_tokens := Some (JNum 0) \<rparr>)))"
    by (simp add: plain_def custom_props_def)
  have m1: "max_tokens limited = Some (JNum 256)" by (simp add: limited_def)
  show ?thesis
    using c1 c2
      max_output_tokens_field [where messages = "[]", OF c1, THEN conjunct1]
      max_output_tokens_field [where messages = "[]", OF c2, THEN conjunct1]
    by (simp add: m1)
qed


subsection \<open>Messages to wire input\<close>

lemma convert_loop_filter:
  "convert_loop msgs input = input @ filter (\<lambda>m. \<not> blank_developer m) (map wire_of msgs)"
  by (induction msgs arbitrary: input) (simp_all add: Let_def)

text \<open>
  Claim C6. \<^verbatim>\<open>convertMessagesToInput\<close> returns at most as many wire messages as it is
  given messages; no message of the result has the role \<^verbatim>\<open>developer\<close> and a bare
  string content that is empty or blank; the result is the converted messages without
  exactly those; and the messages whose content is a sequence of parts all remain, in
  order.
\<close>

theorem convertMessagesToInput_filters:
  "length (convertMessagesToInput msgs) \<le> length msgs \<and>
   (\<forall>m \<in> set (convertMessagesToInput msgs).
      \<not> (role m = ''developer'' \<and> (\<exists>s. content m = Bare s \<and> js_trim s = []))) \<and>
   convertMessagesToInput msgs = filter (\<lambda>m. \<not> blank_developer m) (map wire_of msgs) \<and>
   filter is_sequence (convertMessagesToInput msgs) = filter is_sequence (map wire_of msgs)"
proof -
  have e: "convertMessagesToInput msgs = filter (\<lambda>m. \<not> blank_developer m) (map wire_of msgs)"
    by (simp add: convertMessagesToInput_def convert_loop_filter)
  have l: "length (convertMessagesToInput msgs) \<le> length msgs"
    unfolding e using length_filter_le [of _ "map wire_of msgs"] by simp
  have a: "\<forall>m \<in> set (convertMessagesToInput msgs).
      \<not> (role m = ''developer'' \<and> (\<exists>s. content m = Bare s \<and> js_trim s = []))"
    unfolding e by (auto simp: blank_developer_def)
  have "\<And>m. is_sequence m \<Longrightarrow> \<not> blank_developer m"
    by (auto simp: blank_developer_def split: wire_content.splits)
  then have s: "filter is_sequence (convertMessagesToInput msgs) = filter is_sequence (map wire_of msgs)"
    unfolding e by (auto simp: filter_filter intro: filter_cong)
  show ?thesis using e l a s by blast
qed

theorem convertMessagesToInput_filters_witness:
  "length (convertMessagesToInput conversation) \<le> length conversation \<and>
   convertMessagesToInput conversation
     = [\<lparr> role = ''developer'', content = Bare ''Be brief.'' \<rparr>,
        \<lparr> role = ''developer'', content = Parts [audio_part ''UklGRg=='' ''wav''] \<rparr>,
        \<lparr> role = ''user'', content = Bare ''Hi'' \<rparr>,
        \<lparr> role = ''user'', content = Parts [text_part (Some ''see'')] \<rparr>] \<and>
   filter is_sequence (convertMessagesToInput conversation)
     = filter is_sequence (map wire_of conversation) \<and>
   \<not> list_ex blank_developer (convertMessagesToInput conversation)"
proof -
  have e: "convertMessagesToInput conversation
     = [\<lparr> role = ''developer'', content = Bare ''Be brief.'' \<rparr>,
        \<lparr> role = ''developer'', content = Parts [audio_part ''UklGRg=='' ''wav''] \<rparr>,
        \<lparr> role = ''user'', content = Bare ''Hi'' \<rparr>,
        \<lparr> role = ''user'', content = Parts [text_part (Some ''see'')] \<rparr>]"
    by code_simp
  note t = convertMessagesToInput_filters [of conversation]
  from t have l: "length (convertMessagesToInput conversation) \<le> length conversation"
    by blast
  from t have s: "filter is_sequence (convertMessagesToInput conversation)
     = filter is_sequence (map wire_of conversation)"
    by blast
  from t have "\<forall>m \<in> set (convertMessagesToInput conversation).
      \<not> (role m = ''developer'' \<and> (\<exists>s. content m = Bare s \<and> js_trim s = []))"
    by blast
  then have a: "\<not> list_ex blank_developer (convertMessagesToInput conversation)"
    by (auto simp: list_ex_iff blank_developer_def split: wire_content.splits)
  show ?thesis
    by (intro conjI) (rule l, rule e, rule s, rule a)
qed

end
